theory Spec2Isabelle
  imports Main "HOL-Library.Word" "HOL-Library.Signed_Division" "HOL-Library.Sublist"
begin

text \<open>
  The authentication core of the consumer API: issuing and parsing the signed access
  token, the refresh-token table and its rotation, the \<open>Login\<close> and \<open>RefreshToken\<close>
  operations of the auth service, and the two middlewares that authenticate a request
  and check its roles.  Each definition follows the Go function it is named after.
\<close>

section \<open>Go values used by the authentication core\<close>

text \<open>
  \<open>int\<close> and \<open>int64\<close> are 64-bit two's complement words (the service is built for a
  64-bit target, \<open>golang:1.24\<close>): \<open>+\<close> and \<open>*\<close> wrap, \<open>sint\<close> reads the value.
  \<open>time.Duration\<close> is an \<open>int64\<close> count of nanoseconds.  An instant \<open>time.Time\<close> is
  modelled as an unbounded count of nanoseconds since the Unix epoch; the instants that
  occur are readings of \<open>time.Now()\<close> and of database columns, far from the limits of
  Go's representation.
\<close>

type_synonym int64 = "64 word"
type_synonym Duration = "64 word"
type_synonym Time = int

definition Second :: Duration where
  "Second = 1000000000"

definition Hour :: Duration where
  "Hour = 3600000000000"

text \<open>Go's integer division truncates towards zero.\<close>

definition go_div :: "int64 \<Rightarrow> int64 \<Rightarrow> int64" where
  "go_div a b = word_of_int (sint a sdiv sint b)"

text \<open>\<open>t.Add(d)\<close>, \<open>t.After(u)\<close>, \<open>t.Before(u)\<close>, \<open>t.Unix()\<close>, \<open>time.Unix(s, 0)\<close>.\<close>

definition Time_Add :: "Time \<Rightarrow> Duration \<Rightarrow> Time" where
  "Time_Add t d = t + sint d"

definition Time_After :: "Time \<Rightarrow> Time \<Rightarrow> bool" where
  "Time_After t u \<longleftrightarrow> u < t"

definition Time_Before :: "Time \<Rightarrow> Time \<Rightarrow> bool" where
  "Time_Before t u \<longleftrightarrow> t < u"

definition Time_Unix :: "Time \<Rightarrow> int64" where
  "Time_Unix t = word_of_int (t div 1000000000)"

definition time_Unix :: "int \<Rightarrow> Time" where
  "time_Unix s = s * 1000000000"

text \<open>The zero \<open>time.Time\<close> is January 1, year 1, 00:00:00 UTC.\<close>

definition zeroTime :: Time where
  "zeroTime = - 62135596800 * 1000000000"

definition IsZero :: "Time \<Rightarrow> bool" where
  "IsZero t \<longleftrightarrow> t = zeroTime"

subsection \<open>\<open>strconv.Atoi\<close>\<close>

text \<open>
  Standard library: an optional sign, then one or more decimal digits, and the value
  must fit the 64-bit \<open>int\<close>.  The callers only test \<open>err != nil\<close>.
\<close>

datatype NumError = ErrSyntax | ErrRange

definition isDigit :: "char \<Rightarrow> bool" where
  "isDigit c \<longleftrightarrow> (48::nat) \<le> of_char c \<and> of_char c \<le> (57::nat)"

definition digitVal :: "char \<Rightarrow> nat" where
  "digitVal c = of_char c - 48"

fun digitsVal :: "nat \<Rightarrow> string \<Rightarrow> nat" where
  "digitsVal n [] = n"
| "digitsVal n (c # cs) = digitsVal (n * 10 + digitVal c) cs"

definition Atoi :: "string \<Rightarrow> NumError + int64" where
  "Atoi s =
     (case s of
        [] \<Rightarrow> Inl ErrSyntax
      | c # cs \<Rightarrow>
          let ds = (if c = CHR ''-'' \<or> c = CHR ''+'' then cs else s) in
          if ds = [] \<or> \<not> list_all isDigit ds then Inl ErrSyntax
          else
            let n = digitsVal 0 ds in
            if c = CHR ''-''
            then (if 2 ^ 63 < n then Inl ErrRange else Inr (word_of_int (- int n)))
            else (if 2 ^ 63 \<le> n then Inl ErrRange else Inr (word_of_nat n)))"

section \<open>Errors and results\<close>

text \<open>
  Go errors as values.  \<open>Errorf\<close> keeps the format string of the \<open>fmt.Errorf\<close> call
  and its arguments; the remaining constructors are the sentinel errors of gorm, of the
  validator and of the JWT library that the code can meet.
\<close>

datatype error =
    ErrRecordNotFound
  | ValidationErrors
  | ErrDuplicatedKey
  | ErrKeyFile string
  | Errorf string "arg list"
  | ErrTokenMalformed
  | ErrTokenUnverifiable error
  | ErrTokenSignatureInvalid error
  | ErrTokenInvalidClaims "error list"
  | ErrTokenExpired
  | ErrTokenNotValidYet
  | ErrInvalidType string
  | ErrInvalidKeyType
  | ErrSignatureInvalid
and arg = ArgS string | ArgD int64 | ArgE error

text \<open>A call returns a value, returns an error, or panics.\<close>

datatype 'a result = Ok 'a | Err error | Panic string

definition nilDereference :: string where
  "nilDereference = ''invalid memory address or nil pointer dereference''"

definition interfaceConversion :: string where
  "interfaceConversion = ''interface conversion: interface {} is not string''"

section \<open>Configuration\<close>

text \<open>
  The process-wide variables that \<open>LoadEnv\<close> fills from the environment (service and
  middleware read the same environment), the variable
  \<open>JWT_REFRESH_TOKEN_EXPIRATION_HOUR\<close> that \<open>GetRefreshTokenExpiration\<close> reads
  directly, and what \<open>LoadPublicKey\<close> and \<open>LoadPrivateKey\<close> return for the key files
  the environment names: an error, or the public (private) half of the RSA key pair
  with the given number.
\<close>

record Config =
  JWTSecret :: string
  TokenType :: string
  SigningMethod :: string
  JWTAudience :: string
  JWTIssuer :: string
  JWTExpirationHour :: string
  RefreshTokenExpirationHour :: string
  LoadPublicKey :: "error + nat"
  LoadPrivateKey :: "error + nat"

section \<open>Token lifetimes\<close>

text \<open>\<open>GetJWTExpiration(now int64) int64\<close>, in Unix seconds.\<close>

definition GetJWTExpiration :: "Config \<Rightarrow> int64 \<Rightarrow> int64" where
  "GetJWTExpiration cfg now =
     (case Atoi (JWTExpirationHour cfg) of
        Inl err \<Rightarrow> now + 86400
      | Inr expHour \<Rightarrow>
          let expHour = (if sint expHour \<le> 0 then 24 else expHour)
          in now + go_div (expHour * Hour) Second)"

text \<open>\<open>GetRefreshTokenExpiration(now time.Time) time.Time\<close>.\<close>

definition GetRefreshTokenExpiration :: "Config \<Rightarrow> Time \<Rightarrow> Time" where
  "GetRefreshTokenExpiration cfg now =
     (case Atoi (RefreshTokenExpirationHour cfg) of
        Inl err \<Rightarrow> Time_Add now (24 * Hour)
      | Inr expHour \<Rightarrow>
          let expHour = (if sint expHour \<le> 0 then 24 else expHour)
          in Time_Add now (Hour * expHour))"

section \<open>The JWT library, symbolically\<close>

text \<open>
  \<open>github.com/golang-jwt/jwt/v5\<close> is a dependency, not part of the repository.  Its
  cryptography is idealised: a signature is a term that records the algorithm, the key
  and the content it was computed from, and verifies only against those.  Claims are
  the JSON object of the token body.  The numbers of the model are the integers; the
  decoder reads every number into a \<open>float64\<close>, so a decoded number is the integer
  value of that \<open>float64\<close>.  A token string is represented by what its compact
  serialisation decodes to.
\<close>

datatype jvalue = JNull | JBool bool | JNum int | JStr string | JArr "jvalue list"

type_synonym MapClaims = "(string \<times> jvalue) list"

text \<open>
  \<open>strconv.ParseFloat(s, 64)\<close> on the decimal digits of the integer \<open>n\<close>, which is
  how \<open>json.Unmarshal\<close> reads a number: the nearest \<open>float64\<close>, a tie going to the
  even significand.  The significand has 53 bits, so an integer below 2^53 in
  magnitude is read exactly, and a larger one is rounded to a multiple of \<open>2 ^ e\<close>,
  where \<open>e = ulpExponent\<close> is the number of bits it has beyond 53.  Go's integer types
  hold magnitudes far below the largest \<open>float64\<close>, so the range error of the decoder
  does not arise for a serialised claim and is not modelled.
\<close>

function ulpExponent :: "nat \<Rightarrow> nat" where
  "ulpExponent a = (if a < 2 ^ 53 then 0 else Suc (ulpExponent (a div 2)))"
  by pat_completeness auto
termination
  by (relation "measure (\<lambda>a. a)") auto

declare ulpExponent.simps [simp del]

definition ParseFloat :: "int \<Rightarrow> int" where
  "ParseFloat n =
     (let a = nat \<bar>n\<bar>;
          e = ulpExponent a;
          q = a div 2 ^ e;
          r = a mod 2 ^ e;
          significand = (if 2 ^ e < 2 * r \<or> (2 * r = 2 ^ e \<and> odd q) then q + 1 else q)
      in sgn n * int (significand * 2 ^ e))"

text \<open>
  The conversion \<open>int64(f)\<close> of a \<open>float64\<close> with an integer value.  For a value
  that \<open>int64\<close> does not hold the language leaves the result to the implementation;
  on amd64 it is the smallest \<open>int64\<close>.
\<close>

definition int64_of_float64 :: "int \<Rightarrow> int64" where
  "int64_of_float64 f =
     (if - (2 ^ 63) \<le> f \<and> f < 2 ^ 63 then word_of_int f else word_of_int (- (2 ^ 63)))"

text \<open>
  \<open>json.Unmarshal\<close> of a serialised value into \<open>interface{}\<close>: numbers become
  \<open>float64\<close>, also inside arrays; strings, booleans and \<open>null\<close> come back as they
  were written.
\<close>

fun Unmarshal :: "jvalue \<Rightarrow> jvalue" where
  "Unmarshal (JNum n) = JNum (ParseFloat n)"
| "Unmarshal (JArr elems) = JArr (map Unmarshal elems)"
| "Unmarshal v = v"

definition UnmarshalClaims :: "MapClaims \<Rightarrow> MapClaims" where
  "UnmarshalClaims claims = map (\<lambda>(name, v). (name, Unmarshal v)) claims"

datatype key = Bytes string | RSAPublicKey nat | RSAPrivateKey nat

datatype signature =
    Sig string key "string option" MapClaims
  | Garbage

datatype TokenString =
    Malformed
  | Compact "string option" MapClaims signature

datatype signing_method =
    SigningMethodHMAC string
  | SigningMethodRSA string
  | SigningMethodRSAPSS string
  | SigningMethodECDSA string
  | SigningMethodEd25519
  | signingMethodNone

fun Alg :: "signing_method \<Rightarrow> string" where
  "Alg (SigningMethodHMAC name) = name"
| "Alg (SigningMethodRSA name) = name"
| "Alg (SigningMethodRSAPSS name) = name"
| "Alg (SigningMethodECDSA name) = name"
| "Alg SigningMethodEd25519 = ''EdDSA''"
| "Alg signingMethodNone = ''none''"

definition SigningMethodHS256 :: signing_method where
  "SigningMethodHS256 = SigningMethodHMAC ''HS256''"

definition SigningMethodRS256 :: signing_method where
  "SigningMethodRS256 = SigningMethodRSA ''RS256''"

text \<open>The registry of signing methods, by the \<open>alg\<close> header.\<close>

definition GetSigningMethod :: "string \<Rightarrow> signing_method option" where
  "GetSigningMethod alg =
     (if alg \<in> set [''HS256'', ''HS384'', ''HS512''] then Some (SigningMethodHMAC alg)
      else if alg \<in> set [''RS256'', ''RS384'', ''RS512''] then Some (SigningMethodRSA alg)
      else if alg \<in> set [''PS256'', ''PS384'', ''PS512''] then Some (SigningMethodRSAPSS alg)
      else if alg \<in> set [''ES256'', ''ES384'', ''ES512''] then Some (SigningMethodECDSA alg)
      else if alg = ''EdDSA'' then Some SigningMethodEd25519
      else if alg = ''none'' then Some signingMethodNone
      else None)"

text \<open>
  \<open>Sign\<close> and \<open>Verify\<close> of a method.  HMAC takes a byte string as key, RSA signs
  with the private and verifies with the public half of a pair.  The key functions of
  this repository return an error for every method outside these two families, so the
  other families never reach \<open>Verify\<close>; they are given no key here.
\<close>

fun Sign :: "signing_method \<Rightarrow> key \<Rightarrow> string option \<Rightarrow> MapClaims \<Rightarrow> error + signature" where
  "Sign (SigningMethodHMAC name) (Bytes k) hdr claims = Inr (Sig name (Bytes k) hdr claims)"
| "Sign (SigningMethodRSA name) (RSAPrivateKey n) hdr claims =
     Inr (Sig name (RSAPrivateKey n) hdr claims)"
| "Sign m k hdr claims = Inl ErrInvalidKeyType"

fun Verify :: "signing_method \<Rightarrow> key \<Rightarrow> string option \<Rightarrow> MapClaims \<Rightarrow> signature \<Rightarrow> error option" where
  "Verify (SigningMethodHMAC name) (Bytes k) hdr claims sg =
     (if sg = Sig name (Bytes k) hdr claims then None else Some ErrSignatureInvalid)"
| "Verify (SigningMethodRSA name) (RSAPublicKey n) hdr claims sg =
     (if sg = Sig name (RSAPrivateKey n) hdr claims then None else Some ErrSignatureInvalid)"
| "Verify m k hdr claims sg = Some ErrInvalidKeyType"

text \<open>The parsed token handed to the key function and returned by \<open>jwt.Parse\<close>.\<close>

record Token =
  Method :: signing_method
  Header_alg :: string
  Claims :: MapClaims
  Valid :: bool

text \<open>
  \<open>MapClaims.parseNumericDate\<close>: an absent claim and the number 0 count as "not set",
  any other number is a date in Unix seconds (\<open>time.Unix(int64(f), 0)\<close> for the
  integer values of the model), any other value is an error.
\<close>

definition parseNumericDate :: "MapClaims \<Rightarrow> string \<Rightarrow> error + Time option" where
  "parseNumericDate m k =
     (case map_of m k of
        None \<Rightarrow> Inr None
      | Some (JNum n) \<Rightarrow>
          (if n = 0 then Inr None else Inr (Some (time_Unix (sint (int64_of_float64 n)))))
      | Some v \<Rightarrow> Inl (ErrInvalidType k))"

text \<open>
  The validator as \<open>jwt.Parse\<close> runs it when called without parser options, which is
  how every call in the repository is made: \<open>exp\<close> and \<open>nbf\<close> are checked when
  present; \<open>iat\<close>, \<open>iss\<close>, \<open>aud\<close> and \<open>sub\<close> are compared only under the options
  \<open>WithIssuedAt\<close>, \<open>WithIssuer\<close>, \<open>WithAudience\<close>, \<open>WithSubject\<close>.  The errors
  found are collected.
\<close>

definition verifyExpiresAt :: "MapClaims \<Rightarrow> Time \<Rightarrow> error list" where
  "verifyExpiresAt claims now =
     (case parseNumericDate claims ''exp'' of
        Inl e \<Rightarrow> [e]
      | Inr None \<Rightarrow> []
      | Inr (Some exp) \<Rightarrow> (if Time_Before now exp then [] else [ErrTokenExpired]))"

definition verifyNotBefore :: "MapClaims \<Rightarrow> Time \<Rightarrow> error list" where
  "verifyNotBefore claims now =
     (case parseNumericDate claims ''nbf'' of
        Inl e \<Rightarrow> [e]
      | Inr None \<Rightarrow> []
      | Inr (Some nbf) \<Rightarrow> (if \<not> Time_Before now nbf then [] else [ErrTokenNotValidYet]))"

definition Validate :: "Time \<Rightarrow> MapClaims \<Rightarrow> error list" where
  "Validate now claims = verifyExpiresAt claims now @ verifyNotBefore claims now"

text \<open>
  \<open>jwt.Parse(tokenString, keyFunc)\<close> at the instant \<open>now\<close>: decode, look the method
  up by the header, ask the key function for the key, verify the signature with the
  header's method, validate the claims.
\<close>

definition jwt_Parse :: "Time \<Rightarrow> TokenString \<Rightarrow> (Token \<Rightarrow> error + key) \<Rightarrow> error + Token" where
  "jwt_Parse now tokenString keyFunc =
     (case tokenString of
        Malformed \<Rightarrow> Inl ErrTokenMalformed
      | Compact None claims sg \<Rightarrow>
          Inl (ErrTokenUnverifiable (Errorf ''signing method (alg) is unspecified'' []))
      | Compact (Some alg) claims sg \<Rightarrow>
          (case GetSigningMethod alg of
             None \<Rightarrow> Inl (ErrTokenUnverifiable (Errorf ''signing method (alg) is unavailable'' []))
           | Some method \<Rightarrow>
               let token = \<lparr>Method = method, Header_alg = alg, Claims = claims, Valid = False\<rparr> in
               (case keyFunc token of
                  Inl err \<Rightarrow> Inl (ErrTokenUnverifiable err)
                | Inr k \<Rightarrow>
                    (case Verify method k (Some alg) claims sg of
                       Some err \<Rightarrow> Inl (ErrTokenSignatureInvalid err)
                     | None \<Rightarrow>
                         (case Validate now claims of
                            [] \<Rightarrow> Inr (token\<lparr>Valid := True\<rparr>)
                          | errs \<Rightarrow> Inl (ErrTokenInvalidClaims errs))))))"

text \<open>
  \<open>jwt.NewWithClaims(method, claims).SignedString(key)\<close>: the claims are serialised
  and the serialisation is signed.  The token string returned is represented, like
  every token string, by what it decodes to: the claims as \<open>json.Unmarshal\<close> reads
  them back from the serialisation, which is also how the signature term records the
  content that was signed.
\<close>

definition SignedString :: "signing_method \<Rightarrow> MapClaims \<Rightarrow> key \<Rightarrow> error + TokenString" where
  "SignedString method claims k =
     (let body = UnmarshalClaims claims in
      case Sign method k (Some (Alg method)) body of
        Inl err \<Rightarrow> Inl err
      | Inr sg \<Rightarrow> Inr (Compact (Some (Alg method)) body sg))"


text \<open>
  The type assertions \<open>token.Method.(*jwt.SigningMethodHMAC)\<close> and
  \<open>token.Method.(*jwt.SigningMethodRSA)\<close>: they test the Go type of the method, which
  the three HMAC variants (and the three RSA variants) share.
\<close>

fun isSigningMethodHMAC :: "signing_method \<Rightarrow> bool" where
  "isSigningMethodHMAC (SigningMethodHMAC name) = True"
| "isSigningMethodHMAC m = False"

fun isSigningMethodRSA :: "signing_method \<Rightarrow> bool" where
  "isSigningMethodRSA (SigningMethodRSA name) = True"
| "isSigningMethodRSA m = False"

section \<open>Entities\<close>

text \<open>
  Pointer fields are options: \<open>None\<close> is \<open>nil\<close>, which is what a NULL column loads
  as.  The audit columns of \<open>User\<close> that no modelled code reads are left out.
\<close>

record Role =
  RoleID :: int64
  Name :: string

record User =
  ID :: int64
  Username :: string
  Password :: string
  Email :: string
  Firstname :: string
  Lastname :: "string option"
  IsEnabled :: "bool option"
  IsAccountNonExpired :: "bool option"
  IsAccountNonLocked :: "bool option"
  IsCredentialsNonExpired :: "bool option"
  IsDeleted :: "bool option"
  AccountExpirationDate :: "Time option"
  CredentialsExpirationDate :: "Time option"
  UserType :: string
  LastLogin :: "Time option"
  Roles :: "Role list"

text \<open>
  \<open>u.Equals(&entity.User{})\<close>, the only way \<open>Equals\<close> is called.  The pointer fields
  are compared as pointers, and those of the fresh zero value are \<open>nil\<close>.
\<close>

definition User_Equals_zero :: "User \<Rightarrow> bool" where
  "User_Equals_zero u \<longleftrightarrow>
     \<not> (ID u \<noteq> 0 \<or> Username u \<noteq> [] \<or> Password u \<noteq> [] \<or> Email u \<noteq> [] \<or>
        Firstname u \<noteq> [] \<or> Lastname u \<noteq> None \<or> IsEnabled u \<noteq> None \<or>
        IsAccountNonExpired u \<noteq> None \<or> IsAccountNonLocked u \<noteq> None \<or>
        IsCredentialsNonExpired u \<noteq> None \<or> IsDeleted u \<noteq> None \<or>
        AccountExpirationDate u \<noteq> None \<or> CredentialsExpirationDate u \<noteq> None \<or>
        UserType u \<noteq> [] \<or> LastLogin u \<noteq> None)"

record RefreshToken =
  Token :: string
  UserID :: int64
  ExpiryDate :: Time

definition RefreshToken_zero :: RefreshToken where
  "RefreshToken_zero = \<lparr>Token = [], UserID = 0, ExpiryDate = zeroTime\<rparr>"

text \<open>
  \<open>r.Equals(other)\<close> on two records that are not \<open>nil\<close>.  Go compares the two
  \<open>time.Time\<close> structs with \<open>!=\<close>; here the instants are compared.  The code calls
  \<open>Equals\<close> only against the zero record, where the two differ for one kind of
  record: the empty token of user 0 with the zero instant in a location other than
  UTC, which the struct comparison tells apart from the zero value.  The statements
  below exclude the zero record of the model wherever the comparison matters.
\<close>

definition RefreshToken_Equals :: "RefreshToken \<Rightarrow> RefreshToken \<Rightarrow> bool" where
  "RefreshToken_Equals r other \<longleftrightarrow>
     \<not> (Token r \<noteq> Token other \<or> UserID r \<noteq> UserID other \<or> ExpiryDate r \<noteq> ExpiryDate other)"

record LoginRequest =
  login_Username :: string
  login_Password :: string

record RefreshTokenRequest =
  req_RefreshToken :: string

text \<open>
  \<open>LoginResponse\<close> and \<open>RefreshTokenResponse\<close> have the same four fields.  The
  expiration date is kept as the instant; its rendering in RFC 3339 is not modelled.
\<close>

record LoginResponse =
  resp_AccessToken :: TokenString
  resp_RefreshToken :: string
  resp_ExpirationDate :: Time
  resp_TokenType :: string

type_synonym RefreshTokenResponse = LoginResponse

text \<open>
  \<open>utf8.RuneCountInString\<close>, by which the validator measures a string against
  \<open>min\<close> and \<open>max\<close>.  A string is its bytes.  \<open>first\<close> gives, for a leading byte,
  the width of the encoding it starts and the range its second byte must lie in; a
  byte that starts no well-formed encoding counts as one character of width 1.
\<close>

definition first :: "nat \<Rightarrow> (nat \<times> nat \<times> nat) option" where
  "first c =
     (if 194 \<le> c \<and> c \<le> 223 then Some (2, 128, 191)
      else if c = 224 then Some (3, 160, 191)
      else if 225 \<le> c \<and> c \<le> 236 then Some (3, 128, 191)
      else if c = 237 then Some (3, 128, 159)
      else if 238 \<le> c \<and> c \<le> 239 then Some (3, 128, 191)
      else if c = 240 then Some (4, 144, 191)
      else if 241 \<le> c \<and> c \<le> 243 then Some (4, 128, 191)
      else if c = 244 then Some (4, 128, 143)
      else None)"

definition runeWidth :: "nat \<Rightarrow> nat list \<Rightarrow> nat" where
  "runeWidth c rest =
     (if c < 128 then 1
      else
        (case first c of
           None \<Rightarrow> 1
         | Some (width, lo, hi) \<Rightarrow>
             if length rest + 1 < width then 1
             else if rest ! 0 < lo \<or> hi < rest ! 0 then 1
             else if width = 2 then 2
             else if rest ! 1 < 128 \<or> 191 < rest ! 1 then 1
             else if width = 3 then 3
             else if rest ! 2 < 128 \<or> 191 < rest ! 2 then 1
             else 4))"

function RuneCountInString :: "string \<Rightarrow> nat" where
  "RuneCountInString [] = 0"
| "RuneCountInString (c # cs) =
     Suc (RuneCountInString (drop (runeWidth (of_char c) (map of_char cs) - 1) cs))"
  by pat_completeness auto
termination
  by (relation "measure length") auto

declare RuneCountInString.simps [simp del]

text \<open>
  \<open>Validate\<close> of the two requests, by their tags: \<open>required,min=3,max=20\<close> on the
  username, \<open>required,min=8,max=20\<close> on the password, \<open>required\<close> on the refresh
  token.
\<close>

definition LoginRequest_Validate :: "LoginRequest \<Rightarrow> error option" where
  "LoginRequest_Validate a =
     (if login_Username a \<noteq> [] \<and>
         3 \<le> RuneCountInString (login_Username a) \<and> RuneCountInString (login_Username a) \<le> 20 \<and>
         login_Password a \<noteq> [] \<and>
         8 \<le> RuneCountInString (login_Password a) \<and> RuneCountInString (login_Password a) \<le> 20
      then None else Some ValidationErrors)"

definition RefreshTokenRequest_Validate :: "RefreshTokenRequest \<Rightarrow> error option" where
  "RefreshTokenRequest_Validate a =
     (if req_RefreshToken a \<noteq> [] then None else Some ValidationErrors)"

section \<open>The database\<close>

text \<open>
  The two tables the authentication core uses, rows in primary-key order, and whether
  \<open>InitPostgres\<close> has opened the connection (\<open>GetPostgres\<close> returns \<open>nil\<close> before).

  A \<open>*gorm.DB\<close> is either the connection pool, whose statements take effect at once,
  or an open transaction, which collects its writes until \<open>Commit\<close>; \<open>Rollback\<close> drops
  them.  A statement run on a transaction sees the committed rows and the writes
  pending in that transaction.
\<close>

record DB =
  opened :: bool
  users :: "User list"
  refresh_token :: "RefreshToken list"

datatype statement =
    InsertRefreshToken RefreshToken
  | DeleteRefreshTokenByUserID int64
  | SaveUser User

datatype handle = Pool | Tx "statement list"

fun apply_statement :: "statement \<Rightarrow> DB \<Rightarrow> DB" where
  "apply_statement (InsertRefreshToken r) db = db\<lparr>refresh_token := refresh_token db @ [r]\<rparr>"
| "apply_statement (DeleteRefreshTokenByUserID uid) db =
     db\<lparr>refresh_token := filter (\<lambda>r. UserID r \<noteq> uid) (refresh_token db)\<rparr>"
| "apply_statement (SaveUser u) db =
     (if \<exists>x \<in> set (users db). ID x = ID u
      then db\<lparr>users := map (\<lambda>x. if ID x = ID u then u else x) (users db)\<rparr>
      else db\<lparr>users := users db @ [u]\<rparr>)"

fun commit :: "statement list \<Rightarrow> DB \<Rightarrow> DB" where
  "commit [] db = db"
| "commit (w # ws) db = commit ws (apply_statement w db)"

fun visible :: "handle \<Rightarrow> DB \<Rightarrow> DB" where
  "visible Pool db = db"
| "visible (Tx ws) db = commit ws db"

fun exec :: "handle \<Rightarrow> statement \<Rightarrow> DB \<Rightarrow> handle \<times> DB" where
  "exec Pool w db = (Pool, apply_statement w db)"
| "exec (Tx ws) w db = (Tx (ws @ [w]), db)"

text \<open>
  \<open>db.Transaction(fc)\<close> on the pool: begin a transaction, run \<open>fc\<close> on it, commit if
  \<open>fc\<close> returns \<open>nil\<close>, roll back if it returns an error or panics.  \<open>fc\<close> also gets
  the committed state, which the statements it runs on the pool read and change.
\<close>

definition Transaction ::
  "DB \<Rightarrow> (handle \<Rightarrow> DB \<Rightarrow> 'a result \<times> handle \<times> DB) \<Rightarrow> 'a result \<times> DB" where
  "Transaction db fc =
     (case fc (Tx []) db of
        (Ok v, tx, db') \<Rightarrow> (Ok v, visible tx db')
      | (Err err, tx, db') \<Rightarrow> (Err err, db')
      | (Panic p, tx, db') \<Rightarrow> (Panic p, db'))"

definition databaseNil :: error where
  "databaseNil = Errorf ''database connection is nil'' []"

subsection \<open>Repositories\<close>

text \<open>
  The statements run against the tables above.  A read finds its row or returns
  "record not found"; a write takes effect, except for an insert that the unique
  constraints reject.  Errors of the driver (a lost connection, a timeout), which
  every repository function would pass on to its caller, have no counterpart here.
\<close>

text \<open>SQL \<open>lower\<close>, on ASCII letters.\<close>

definition toLower :: "char \<Rightarrow> char" where
  "toLower c =
     (case map_of (zip ''ABCDEFGHIJKLMNOPQRSTUVWXYZ'' ''abcdefghijklmnopqrstuvwxyz'') c of
        Some l \<Rightarrow> l
      | None \<Rightarrow> c)"

definition lower :: "string \<Rightarrow> string" where
  "lower s = map toLower s"

definition userRepository_GetUserByID :: "handle \<Rightarrow> DB \<Rightarrow> int64 \<Rightarrow> error + User" where
  "userRepository_GetUserByID tx db uid =
     (case find (\<lambda>u. ID u = uid) (users (visible tx db)) of
        None \<Rightarrow> Inl ErrRecordNotFound
      | Some user \<Rightarrow> Inr user)"

definition userRepository_GetUserByUsername :: "handle \<Rightarrow> DB \<Rightarrow> string \<Rightarrow> error + User" where
  "userRepository_GetUserByUsername tx db username =
     (case find (\<lambda>u. lower (Username u) = lower username) (users (visible tx db)) of
        None \<Rightarrow> Inl ErrRecordNotFound
      | Some user \<Rightarrow> Inr user)"

definition userRepository_UpdateUser ::
  "handle \<Rightarrow> DB \<Rightarrow> User \<Rightarrow> (error + User) \<times> handle \<times> DB" where
  "userRepository_UpdateUser tx db user = (Inr user, exec tx (SaveUser user) db)"

definition refreshTokenRepository_GetRefreshTokenByUserID ::
  "handle \<Rightarrow> DB \<Rightarrow> int64 \<Rightarrow> error + RefreshToken" where
  "refreshTokenRepository_GetRefreshTokenByUserID tx db userID =
     (case find (\<lambda>r. UserID r = userID) (refresh_token (visible tx db)) of
        None \<Rightarrow> Inl ErrRecordNotFound
      | Some refreshToken \<Rightarrow> Inr refreshToken)"

definition refreshTokenRepository_GetRefreshTokenByToken ::
  "handle \<Rightarrow> DB \<Rightarrow> string \<Rightarrow> error + RefreshToken" where
  "refreshTokenRepository_GetRefreshTokenByToken tx db token =
     (case find (\<lambda>r. Token r = token) (refresh_token (visible tx db)) of
        None \<Rightarrow> Inl ErrRecordNotFound
      | Some refreshToken \<Rightarrow> Inr refreshToken)"

text \<open>
  The table declares \<open>token\<close> and \<open>user_id\<close> unique (the \<open>gorm\<close> tags of
  \<open>RefreshToken\<close>), so the insert fails on a row that repeats either.
\<close>

definition refreshTokenRepository_CreateRefreshToken ::
  "handle \<Rightarrow> DB \<Rightarrow> RefreshToken \<Rightarrow> (error + RefreshToken) \<times> handle \<times> DB" where
  "refreshTokenRepository_CreateRefreshToken tx db token =
     (if \<exists>r \<in> set (refresh_token (visible tx db)). Token r = Token token \<or> UserID r = UserID token
      then (Inl (Errorf ''failed to create refresh token: %w'' [ArgE ErrDuplicatedKey]), tx, db)
      else (Inr token, exec tx (InsertRefreshToken token) db))"

definition refreshTokenRepository_RemoveRefreshTokenByUserID ::
  "handle \<Rightarrow> DB \<Rightarrow> int64 \<Rightarrow> (error + bool) \<times> handle \<times> DB" where
  "refreshTokenRepository_RemoveRefreshTokenByUserID tx db userID =
     (Inr True, exec tx (DeleteRefreshTokenByUserID userID) db)"

section \<open>Services\<close>

subsection \<open>\<open>userService\<close>\<close>

definition userService_GetUserByID :: "DB \<Rightarrow> int64 \<Rightarrow> error + User" where
  "userService_GetUserByID db uid =
     (if \<not> opened db then Inl databaseNil
      else case userRepository_GetUserByID Pool db uid of
             Inl err \<Rightarrow> Inl err
           | Inr user \<Rightarrow> Inr user)"

definition userService_GetUserByUsername :: "DB \<Rightarrow> string \<Rightarrow> error + User" where
  "userService_GetUserByUsername db username =
     (if \<not> opened db then Inl databaseNil
      else case userRepository_GetUserByUsername Pool db username of
             Inl err \<Rightarrow> Inl err
           | Inr user \<Rightarrow> Inr user)"

text \<open>
  The function passed to \<open>db.Transaction\<close> in \<open>UpdateLastLogin\<close>.  It reads the user
  through the pool (\<open>s.repo.GetUserByID(db, id)\<close>), assigns through the \<open>LastLogin\<close>
  pointer, and saves through the transaction.
\<close>

definition UpdateLastLogin_fc ::
  "int64 \<Rightarrow> Time \<Rightarrow> handle \<Rightarrow> DB \<Rightarrow> unit result \<times> handle \<times> DB" where
  "UpdateLastLogin_fc uid lastLogin tx db =
     (case userRepository_GetUserByID Pool db uid of
        Inl err \<Rightarrow> (Err err, tx, db)
      | Inr existingUser \<Rightarrow>
          if User_Equals_zero existingUser
          then (Err (Errorf ''user with ID %d not found'' [ArgD uid]), tx, db)
          else
            (case LastLogin existingUser of
               None \<Rightarrow> (Panic nilDereference, tx, db)
             | Some old \<Rightarrow>
                 (case userRepository_UpdateUser tx db (existingUser\<lparr>LastLogin := Some lastLogin\<rparr>) of
                    (Inl err, tx', db') \<Rightarrow> (Err err, tx', db')
                  | (Inr updated, tx', db') \<Rightarrow> (Ok (), tx', db'))))"

definition userService_UpdateLastLogin :: "DB \<Rightarrow> int64 \<Rightarrow> Time \<Rightarrow> bool result \<times> DB" where
  "userService_UpdateLastLogin db uid lastLogin =
     (if \<not> opened db then (Err databaseNil, db)
      else case Transaction db (UpdateLastLogin_fc uid lastLogin) of
             (Ok u, db') \<Rightarrow> (Ok True, db')
           | (Err err, db') \<Rightarrow> (Err err, db')
           | (Panic p, db') \<Rightarrow> (Panic p, db'))"

subsection \<open>\<open>refreshTokenService\<close>\<close>

definition refreshTokenService_GetRefreshTokenByToken :: "DB \<Rightarrow> string \<Rightarrow> error + RefreshToken" where
  "refreshTokenService_GetRefreshTokenByToken db token =
     (if \<not> opened db then Inl databaseNil
      else case refreshTokenRepository_GetRefreshTokenByToken Pool db token of
             Inl err \<Rightarrow> Inl err
           | Inr refreshToken \<Rightarrow> Inr refreshToken)"

text \<open>\<open>VerifyExpirationDate(exp)\<close> when \<open>time.Now()\<close> reads \<open>now\<close>.\<close>

definition refreshTokenService_VerifyExpirationDate :: "Time \<Rightarrow> Time \<Rightarrow> bool \<times> error option" where
  "refreshTokenService_VerifyExpirationDate now exp =
     (if IsZero exp then (False, Some (Errorf ''expiration date is not set'' []))
      else if Time_After now exp then (False, None)
      else (True, None))"

text \<open>
  The function passed to \<open>db.Transaction\<close> in \<open>CreateRefreshToken\<close>; every statement
  runs on the transaction.  \<open>uuid\<close> is the string \<open>uuid.New().String()\<close> returns.
  The repository returns the zero \<open>RefreshToken\<close> together with an error, so after
  "record not found" the existing token is the zero value.
\<close>

definition CreateRefreshToken_fc ::
  "Config \<Rightarrow> Time \<Rightarrow> string \<Rightarrow> int64 \<Rightarrow> handle \<Rightarrow> DB \<Rightarrow> RefreshToken result \<times> handle \<times> DB" where
  "CreateRefreshToken_fc cfg now uuid userID tx db =
     (let found = refreshTokenRepository_GetRefreshTokenByUserID tx db userID;
          existingRefreshToken = (case found of Inl err \<Rightarrow> RefreshToken_zero | Inr r \<Rightarrow> r)
      in
      case (case found of
              Inl err \<Rightarrow> if err \<noteq> ErrRecordNotFound then Some err else None
            | Inr r \<Rightarrow> None) of
        Some err \<Rightarrow> (Err err, tx, db)
      | None \<Rightarrow>
          (case (if \<not> RefreshToken_Equals existingRefreshToken RefreshToken_zero
                 then refreshTokenRepository_RemoveRefreshTokenByUserID tx db userID
                 else (Inr True, tx, db)) of
             (Inl err, tx1, db1) \<Rightarrow> (Err err, tx1, db1)
           | (Inr removed, tx1, db1) \<Rightarrow>
               let tokenStr = uuid;
                   refreshToken =
                     \<lparr>Token = tokenStr, UserID = userID,
                      ExpiryDate = GetRefreshTokenExpiration cfg now\<rparr>
               in
               (case refreshTokenRepository_CreateRefreshToken tx1 db1 refreshToken of
                  (Inl err, tx2, db2) \<Rightarrow> (Err err, tx2, db2)
                | (Inr created, tx2, db2) \<Rightarrow> (Ok created, tx2, db2))))"

definition refreshTokenService_CreateRefreshToken ::
  "Config \<Rightarrow> Time \<Rightarrow> string \<Rightarrow> DB \<Rightarrow> int64 \<Rightarrow> RefreshToken result \<times> DB" where
  "refreshTokenService_CreateRefreshToken cfg now uuid db userID =
     (if \<not> opened db then (Err databaseNil, db)
      else Transaction db (CreateRefreshToken_fc cfg now uuid userID))"

subsection \<open>Access tokens\<close>

definition ExtractRoleNames :: "Role list \<Rightarrow> string list" where
  "ExtractRoleNames roles = map Name roles"

text \<open>\<open>now\<close> is the reading of \<open>time.Now()\<close>; the claims carry \<open>now.Unix()\<close>.\<close>

definition GenerateJWTTokenWithHS256 :: "Config \<Rightarrow> Time \<Rightarrow> User \<Rightarrow> error + TokenString" where
  "GenerateJWTTokenWithHS256 cfg t user =
     (let now = Time_Unix t;
          claims =
            [(''sub'', JStr (Username user)),
             (''aud'', JStr (JWTAudience cfg)),
             (''iss'', JStr (JWTIssuer cfg)),
             (''iat'', JNum (sint now)),
             (''exp'', JNum (sint (GetJWTExpiration cfg now))),
             (''email'', JStr (Email user)),
             (''userid'', JNum (sint (ID user))),
             (''username'', JStr (Username user)),
             (''roles'', JArr (map JStr (ExtractRoleNames (Roles user))))]
      in SignedString SigningMethodHS256 claims (Bytes (JWTSecret cfg)))"

definition GenerateJWTTokenWithRS256 :: "Config \<Rightarrow> Time \<Rightarrow> User \<Rightarrow> error + TokenString" where
  "GenerateJWTTokenWithRS256 cfg t user =
     (case LoadPrivateKey cfg of
        Inl err \<Rightarrow> Inl err
      | Inr privateKey \<Rightarrow>
          let now = Time_Unix t;
              claims =
                [(''sub'', JStr (Username user)),
                 (''aud'', JStr (JWTAudience cfg)),
                 (''iss'', JStr (JWTIssuer cfg)),
                 (''iat'', JNum (sint now)),
                 (''exp'', JNum (sint (GetJWTExpiration cfg now))),
                 (''email'', JStr (Email user)),
                 (''userid'', JNum (sint (ID user))),
                 (''username'', JStr (Username user)),
                 (''roles'', JArr (map JStr (ExtractRoleNames (Roles user))))]
          in SignedString SigningMethodRS256 claims (RSAPrivateKey privateKey))"

definition GenerateJWTToken :: "Config \<Rightarrow> Time \<Rightarrow> User \<Rightarrow> error + TokenString" where
  "GenerateJWTToken cfg t user =
     (if SigningMethod cfg = Alg SigningMethodHS256 then GenerateJWTTokenWithHS256 cfg t user
      else if SigningMethod cfg = Alg SigningMethodRS256 then GenerateJWTTokenWithRS256 cfg t user
      else Inl (Errorf ''unsupported signing method: %s'' [ArgS (SigningMethod cfg)]))"

definition ParseJWTTokenWithHS256 :: "Config \<Rightarrow> Time \<Rightarrow> TokenString \<Rightarrow> error + Token" where
  "ParseJWTTokenWithHS256 cfg now tokenStr =
     (case jwt_Parse now tokenStr
             (\<lambda>token. if \<not> isSigningMethodHMAC (Method token)
                       then Inl (Errorf ''unexpected signing method: %v'' [ArgS (Header_alg token)])
                       else Inr (Bytes (JWTSecret cfg))) of
        Inl err \<Rightarrow> Inl (Errorf ''failed to parse JWT token: %v'' [ArgE err])
      | Inr token \<Rightarrow> Inr token)"

definition ParseJWTTokenWithRS256 :: "Config \<Rightarrow> Time \<Rightarrow> TokenString \<Rightarrow> error + Token" where
  "ParseJWTTokenWithRS256 cfg now tokenStr =
     (case LoadPublicKey cfg of
        Inl err \<Rightarrow> Inl (Errorf ''failed to load public key: %v'' [ArgE err])
      | Inr publicKey \<Rightarrow>
          (case jwt_Parse now tokenStr
                  (\<lambda>token. if \<not> isSigningMethodRSA (Method token)
                            then Inl (Errorf ''unexpected signing method: %v'' [ArgS (Header_alg token)])
                            else Inr (RSAPublicKey publicKey)) of
             Inl err \<Rightarrow> Inl (Errorf ''failed to parse JWT token: %v'' [ArgE err])
           | Inr token \<Rightarrow> Inr token))"

definition ParseJWTToken :: "Config \<Rightarrow> Time \<Rightarrow> TokenString \<Rightarrow> error + Token" where
  "ParseJWTToken cfg now tokenStr =
     (if SigningMethod cfg = Alg SigningMethodHS256 then ParseJWTTokenWithHS256 cfg now tokenStr
      else if SigningMethod cfg = Alg SigningMethodRS256 then ParseJWTTokenWithRS256 cfg now tokenStr
      else Inl (Errorf ''unsupported signing method: %s'' [ArgS (SigningMethod cfg)]))"

definition GetExpirationDateFromToken :: "Token \<Rightarrow> error + Time" where
  "GetExpirationDateFromToken token =
     (case map_of (Claims token) ''exp'' of
        Some (JNum expFloat) \<Rightarrow> Inr (time_Unix (sint (int64_of_float64 expFloat)))
      | _ \<Rightarrow> Inl (Errorf ''exp claim not found or not a float64'' []))"

subsection \<open>\<open>authService\<close>\<close>

text \<open>
  bcrypt, idealised like the signatures: a stored hash matches the password it was
  made from and no other.
\<close>

definition bcrypt_GenerateFromPassword :: "string \<Rightarrow> string" where
  "bcrypt_GenerateFromPassword password = ''$2a$10$'' @ password"

definition bcrypt_CompareHashAndPassword :: "string \<Rightarrow> string \<Rightarrow> error option" where
  "bcrypt_CompareHashAndPassword hashedPassword password =
     (if hashedPassword = bcrypt_GenerateFromPassword password then None
      else Some (Errorf ''crypto/bcrypt: hashedPassword is not the hash of the given password'' []))"

text \<open>
  The conditions \<open>Login\<close> checks on the user it found (lines 209 to 232); each flag is
  read through its pointer.
\<close>

definition Login_conditions :: "LoginRequest \<Rightarrow> User \<Rightarrow> unit result" where
  "Login_conditions loginReq existingUser =
     (if User_Equals_zero existingUser
      then Err (Errorf ''user with username %s not found'' [ArgS (login_Username loginReq)])
      else
     (case IsEnabled existingUser of
        None \<Rightarrow> Panic nilDereference
      | Some isEnabled \<Rightarrow>
     (if \<not> isEnabled
      then Err (Errorf ''user with username %s is not enabled'' [ArgS (login_Username loginReq)])
      else
     (case IsAccountNonExpired existingUser of
        None \<Rightarrow> Panic nilDereference
      | Some isAccountNonExpired \<Rightarrow>
     (if \<not> isAccountNonExpired then Err (Errorf ''user account is expired'' [])
      else
     (case IsAccountNonLocked existingUser of
        None \<Rightarrow> Panic nilDereference
      | Some isAccountNonLocked \<Rightarrow>
     (if \<not> isAccountNonLocked then Err (Errorf ''user account is locked'' [])
      else
     (case IsCredentialsNonExpired existingUser of
        None \<Rightarrow> Panic nilDereference
      | Some isCredentialsNonExpired \<Rightarrow>
     (if \<not> isCredentialsNonExpired then Err (Errorf ''user credentials are expired'' [])
      else
     (case IsDeleted existingUser of
        None \<Rightarrow> Panic nilDereference
      | Some isDeleted \<Rightarrow>
     (if isDeleted
      then Err (Errorf ''user with username %s is deleted'' [ArgS (login_Username loginReq)])
      else
     (case bcrypt_CompareHashAndPassword (Password existingUser) (login_Password loginReq) of
        Some err \<Rightarrow> Err (Errorf ''invalid credentials for user %s'' [ArgS (login_Username loginReq)])
      | None \<Rightarrow> Ok ()))))))))))))"

text \<open>
  Lines 234 to 271 of \<open>Login\<close> and, with \<open>userDetails\<close> for \<open>existingUser\<close>, lines 335
  to 370 of \<open>RefreshToken\<close>, which are the same statements: generate the access token,
  parse it back, read its expiration date, create the refresh token, update the last
  login.  The services are called on the pool (each does \<open>database.GetPostgres()\<close>);
  the transaction \<open>tx\<close> of the caller is not handed to any of them.  All readings of
  the clock within one call are taken to be the same instant \<open>now\<close>.
\<close>

definition issueAndRotate ::
  "Config \<Rightarrow> Time \<Rightarrow> string \<Rightarrow> User \<Rightarrow> handle \<Rightarrow> DB \<Rightarrow>
     (TokenString \<times> string \<times> Time) result \<times> handle \<times> DB" where
  "issueAndRotate cfg now uuid existingUser tx db =
     (case GenerateJWTToken cfg now existingUser of
        Inl err \<Rightarrow> (Err (Errorf ''failed to generate JWT token: %w'' [ArgE err]), tx, db)
      | Inr tokenStr \<Rightarrow>
     (case ParseJWTToken cfg now tokenStr of
        Inl err \<Rightarrow> (Err (Errorf ''failed to parse JWT token: %w'' [ArgE err]), tx, db)
      | Inr jwtToken \<Rightarrow>
     (case GetExpirationDateFromToken jwtToken of
        Inl err \<Rightarrow> (Err (Errorf ''failed to get expiration date from token: %w'' [ArgE err]), tx, db)
      | Inr expirationDateStr \<Rightarrow>
     (case refreshTokenService_CreateRefreshToken cfg now uuid db (ID existingUser) of
        (Err err, db1) \<Rightarrow> (Err (Errorf ''failed to create refresh token: %w'' [ArgE err]), tx, db1)
      | (Panic p, db1) \<Rightarrow> (Panic p, tx, db1)
      | (Ok jwtRefreshToken, db1) \<Rightarrow>
          if RefreshToken_Equals jwtRefreshToken RefreshToken_zero
          then (Err (Errorf ''failed to create refresh token'' []), tx, db1)
          else
            (case userService_UpdateLastLogin db1 (ID existingUser) now of
               (Err err, db2) \<Rightarrow>
                 (Err (Errorf ''failed to update last login time: %w'' [ArgE err]), tx, db2)
             | (Panic p, db2) \<Rightarrow> (Panic p, tx, db2)
             | (Ok updated, db2) \<Rightarrow>
                 (Ok (tokenStr, Token jwtRefreshToken, expirationDateStr), tx, db2))))))"

text \<open>The function passed to \<open>db.Transaction\<close> in \<open>Login\<close>.\<close>

definition Login_fc ::
  "Config \<Rightarrow> Time \<Rightarrow> string \<Rightarrow> LoginRequest \<Rightarrow> handle \<Rightarrow> DB \<Rightarrow>
     (TokenString \<times> string \<times> Time) result \<times> handle \<times> DB" where
  "Login_fc cfg now uuid loginReq tx db =
     (case userService_GetUserByUsername db (login_Username loginReq) of
        Inl err \<Rightarrow> (Err err, tx, db)
      | Inr existingUser \<Rightarrow>
          (case Login_conditions loginReq existingUser of
             Err err \<Rightarrow> (Err err, tx, db)
           | Panic p \<Rightarrow> (Panic p, tx, db)
           | Ok u \<Rightarrow> issueAndRotate cfg now uuid existingUser tx db))"

definition authService_Login ::
  "Config \<Rightarrow> Time \<Rightarrow> string \<Rightarrow> DB \<Rightarrow> LoginRequest \<Rightarrow> LoginResponse result \<times> DB" where
  "authService_Login cfg now uuid db loginReq =
     (if \<not> opened db then (Err databaseNil, db)
      else case LoginRequest_Validate loginReq of
        Some err \<Rightarrow> (Err err, db)
      | None \<Rightarrow>
          (case Transaction db (Login_fc cfg now uuid loginReq) of
             (Err err, db') \<Rightarrow> (Err err, db')
           | (Panic p, db') \<Rightarrow> (Panic p, db')
           | (Ok (tokenStr, refreshTokenStr, expirationDateStr), db') \<Rightarrow>
               (Ok \<lparr>resp_AccessToken = tokenStr,
                    resp_RefreshToken = refreshTokenStr,
                    resp_ExpirationDate = expirationDateStr,
                    resp_TokenType = TokenType cfg\<rparr>, db')))"

text \<open>The function passed to \<open>db.Transaction\<close> in \<open>RefreshToken\<close>.\<close>

definition RefreshToken_fc ::
  "Config \<Rightarrow> Time \<Rightarrow> string \<Rightarrow> RefreshTokenRequest \<Rightarrow> handle \<Rightarrow> DB \<Rightarrow>
     (TokenString \<times> string \<times> Time) result \<times> handle \<times> DB" where
  "RefreshToken_fc cfg now uuid refreshTokenReq tx db =
     (case refreshTokenService_GetRefreshTokenByToken db (req_RefreshToken refreshTokenReq) of
        Inl err \<Rightarrow> (Err err, tx, db)
      | Inr existingRefreshToken \<Rightarrow>
          if RefreshToken_Equals existingRefreshToken RefreshToken_zero
          then (Err (Errorf ''refresh token not found'' []), tx, db)
          else if \<not> fst (refreshTokenService_VerifyExpirationDate now (ExpiryDate existingRefreshToken))
          then (Err (Errorf ''refresh token is expired'' []), tx, db)
          else
            (case userService_GetUserByID db (UserID existingRefreshToken) of
               Inl err \<Rightarrow> (Err err, tx, db)
             | Inr userDetails \<Rightarrow>
                 if User_Equals_zero userDetails
                 then (Err (Errorf ''user with ID %d not found'' [ArgD (UserID existingRefreshToken)]), tx, db)
                 else issueAndRotate cfg now uuid userDetails tx db))"

definition authService_RefreshToken ::
  "Config \<Rightarrow> Time \<Rightarrow> string \<Rightarrow> DB \<Rightarrow> RefreshTokenRequest \<Rightarrow> RefreshTokenResponse result \<times> DB" where
  "authService_RefreshToken cfg now uuid db refreshTokenReq =
     (if \<not> opened db then (Err databaseNil, db)
      else case RefreshTokenRequest_Validate refreshTokenReq of
        Some err \<Rightarrow> (Err err, db)
      | None \<Rightarrow>
          (case Transaction db (RefreshToken_fc cfg now uuid refreshTokenReq) of
             (Err err, db') \<Rightarrow> (Err err, db')
           | (Panic p, db') \<Rightarrow> (Panic p, db')
           | (Ok (accessTokenStr, refreshTokenStr, expirationDateStr), db') \<Rightarrow>
               (Ok \<lparr>resp_AccessToken = accessTokenStr,
                    resp_RefreshToken = refreshTokenStr,
                    resp_ExpirationDate = expirationDateStr,
                    resp_TokenType = TokenType cfg\<rparr>, db')))"




section \<open>Middleware\<close>

record UserInformationMeta =
  meta_UserID :: int64
  meta_Username :: string
  meta_Email :: string
  meta_Roles :: "string list"

text \<open>
  What a middleware does with a request: hand it to the next handler (\<open>c.Next()\<close>,
  with the identity that the request context holds, if any), or write a response with
  a status, a message and a detail and abort the chain.
\<close>

datatype detail = Detail string | DetailErr error | DetailSprintf string "string list"

datatype gin_result =
    Next "UserInformationMeta option"
  | Abort nat string detail

definition StatusUnauthorized :: nat where
  "StatusUnauthorized = 401"

definition StatusForbidden :: nat where
  "StatusForbidden = 403"

definition StatusInternalServerError :: nat where
  "StatusInternalServerError = 500"

subsection \<open>Claim extraction\<close>

definition GetInt64Claim :: "MapClaims \<Rightarrow> string \<Rightarrow> error + int64" where
  "GetInt64Claim claims k =
     (case map_of claims k of
        Some (JNum f) \<Rightarrow> Inr (int64_of_float64 f)
      | Some v \<Rightarrow> Inl (Errorf ''claim %s is not a float64'' [ArgS k])
      | None \<Rightarrow> Inl (Errorf ''claim %s not found'' [ArgS k]))"

definition GetStringSliceClaim :: "MapClaims \<Rightarrow> string \<Rightarrow> string list" where
  "GetStringSliceClaim claims k =
     (case map_of claims k of
        Some (JArr elems) \<Rightarrow> map (\<lambda>v. case v of JStr str \<Rightarrow> str | _ \<Rightarrow> []) elems
      | _ \<Rightarrow> [])"

subsection \<open>\<open>JwtValidation\<close>\<close>

text \<open>
  The key function of the middleware.  It chooses the key by the token's own \<open>alg\<close>
  header and does not read the configured algorithm.
\<close>

definition JwtValidation_keyFunc :: "Config \<Rightarrow> Token \<Rightarrow> error + key" where
  "JwtValidation_keyFunc cfg token =
     (if Alg (Method token) = Alg SigningMethodHS256
      then
        (if \<not> isSigningMethodHMAC (Method token)
         then Inl (Errorf ''unexpected signing method: %v'' [ArgS (Header_alg token)])
         else Inr (Bytes (JWTSecret cfg)))
      else
        (case LoadPublicKey cfg of
           Inl err \<Rightarrow> Inl err
         | Inr publicKey \<Rightarrow>
             if \<not> isSigningMethodRSA (Method token)
             then Inl (Errorf ''unexpected signing method: %v'' [ArgS (Header_alg token)])
             else Inr (RSAPublicKey publicKey)))"

text \<open>
  The handler on a request whose \<open>Authorization\<close> header is \<open>authHeader\<close> (empty when
  absent), at the instant \<open>now\<close>.  \<open>decode\<close> gives the token that a string is the
  compact serialisation of (\<open>Malformed\<close> if it is none): the base64 and JSON decoding
  done inside \<open>jwt.Parse\<close>.  The two type assertions \<open>claims["username"].(string)\<close>
  and \<open>claims["email"].(string)\<close> have no \<open>ok\<close> result and panic when they fail.
\<close>

definition JwtValidation ::
  "Config \<Rightarrow> (string \<Rightarrow> TokenString) \<Rightarrow> Time \<Rightarrow> string \<Rightarrow> gin_result result" where
  "JwtValidation cfg decode now authHeader =
     (if authHeader = []
      then Ok (Abort StatusUnauthorized ''No token provided'' (Detail ''Authorization header is missing''))
      else
        let tokenPrefix = TokenType cfg @ '' '' in
        if \<not> prefix tokenPrefix authHeader
        then Ok (Abort StatusUnauthorized ''Invalid token format''
                   (DetailSprintf (''Token must start with '' @ [CHR 0x27] @ ''%s'' @ [CHR 0x27])
                      [tokenPrefix]))
        else
          let tokenStr = drop (length tokenPrefix) authHeader in
          if tokenStr = []
          then Ok (Abort StatusUnauthorized ''Invalid token format'' (Detail ''Token string is empty''))
          else
            (case jwt_Parse now (decode tokenStr) (JwtValidation_keyFunc cfg) of
               Inl err \<Rightarrow> Ok (Abort StatusUnauthorized ''Invalid token'' (DetailErr err))
             | Inr token \<Rightarrow>
                 if \<not> Valid token
                 then Ok (Abort StatusUnauthorized ''Invalid token'' (Detail ''Token is not valid''))
                 else
                   let claims = Claims token;
                       userID = (case GetInt64Claim claims ''userid'' of Inl err \<Rightarrow> 0 | Inr v \<Rightarrow> v)
                   in
                   (case map_of claims ''username'' of
                      Some (JStr username) \<Rightarrow>
                        (case map_of claims ''email'' of
                           Some (JStr email) \<Rightarrow>
                             Ok (Next (Some \<lparr>meta_UserID = userID,
                                              meta_Username = username,
                                              meta_Email = email,
                                              meta_Roles = GetStringSliceClaim claims ''roles''\<rparr>))
                         | _ \<Rightarrow> Panic interfaceConversion)
                    | _ \<Rightarrow> Panic interfaceConversion)))"

subsection \<open>\<open>RoleBasedAccessControl\<close>\<close>

text \<open>The two nested loops over the user's roles and the allowed roles.\<close>

fun allowedLoop :: "string \<Rightarrow> string list \<Rightarrow> bool" where
  "allowedLoop role [] = False"
| "allowedLoop role (allowed # rest) = (if role = allowed then True else allowedLoop role rest)"

fun rolesLoop :: "string list \<Rightarrow> string list \<Rightarrow> bool" where
  "rolesLoop [] allowedRoles = False"
| "rolesLoop (role # rest) allowedRoles =
     (if allowedLoop role allowedRoles then True else rolesLoop rest allowedRoles)"

text \<open>
  \<open>RoleBasedAccessControl(allowedRoles...)\<close> on a request whose context holds the
  identity \<open>ctx\<close> (\<open>None\<close> when \<open>ExtractUserInformationMeta\<close> finds none).
\<close>

definition RoleBasedAccessControl :: "string list \<Rightarrow> UserInformationMeta option \<Rightarrow> gin_result" where
  "RoleBasedAccessControl allowedRoles ctx =
     (if length allowedRoles = 0 then Next ctx
      else
        (case ctx of
           None \<Rightarrow>
             Abort StatusInternalServerError ''Failed to extract metadata''
               (Detail ''Unable to extract user metadata from context'')
         | Some meta \<Rightarrow>
             if length (meta_Roles meta) = 0
             then Abort StatusForbidden ''No roles found'' (Detail ''User does not have any roles'')
             else if rolesLoop (meta_Roles meta) allowedRoles then Next ctx
             else Abort StatusForbidden ''Access denied''
                    (Detail ''User does not have the required role'')))"

section \<open>The refresh-token table, per user\<close>




section \<open>Sample data\<close>

text \<open>
  A deployment and a database to evaluate the definitions on: the configuration of the
  README with the shared-secret algorithm, and two users like those of the seed script,
  the second one with a NULL \<open>last_login\<close> column.
\<close>

definition demoConfig :: Config where
  "demoConfig =
     \<lparr>JWTSecret = ''a-string-secret-at-least-256-bits-long'',
      TokenType = ''Bearer'',
      SigningMethod = ''HS256'',
      JWTAudience = ''your_jwt_audience'',
      JWTIssuer = ''your_jwt_issuer'',
      JWTExpirationHour = ''48'',
      RefreshTokenExpirationHour = ''720'',
      LoadPublicKey = Inr 1,
      LoadPrivateKey = Inr 1\<rparr>"

definition demoAdmin :: User where
  "demoAdmin =
     \<lparr>ID = 1, Username = ''admin'',
      Password = bcrypt_GenerateFromPassword ''P@ssw0rd'',
      Email = ''admin@mygmail.com'', Firstname = ''Admin'', Lastname = Some ''Admin'',
      IsEnabled = Some True, IsAccountNonExpired = Some True,
      IsAccountNonLocked = Some True, IsCredentialsNonExpired = Some True,
      IsDeleted = Some False, AccountExpirationDate = None,
      CredentialsExpirationDate = None, UserType = ''USER_ACCOUNT'',
      LastLogin = Some 1739314472000000000,
      Roles = [\<lparr>RoleID = 3, Name = ''ROLE_ADMIN''\<rparr>]\<rparr>"

definition demoNewUser :: User where
  "demoNewUser =
     \<lparr>ID = 2, Username = ''userone'',
      Password = bcrypt_GenerateFromPassword ''P@ssw0rd'',
      Email = ''userone@mygmail.com'', Firstname = ''User'', Lastname = Some ''One'',
      IsEnabled = Some True, IsAccountNonExpired = Some True,
      IsAccountNonLocked = Some True, IsCredentialsNonExpired = Some True,
      IsDeleted = Some False, AccountExpirationDate = None,
      CredentialsExpirationDate = None, UserType = ''USER_ACCOUNT'',
      LastLogin = None,
      Roles = [\<lparr>RoleID = 1, Name = ''ROLE_USER''\<rparr>]\<rparr>"

definition demoLoginRequest :: LoginRequest where
  "demoLoginRequest = \<lparr>login_Username = ''Admin'', login_Password = ''P@ssw0rd''\<rparr>"

definition demoNewUserRequest :: LoginRequest where
  "demoNewUserRequest = \<lparr>login_Username = ''userone'', login_Password = ''P@ssw0rd''\<rparr>"

definition demoDB :: DB where
  "demoDB = \<lparr>opened = True, users = [demoAdmin, demoNewUser], refresh_token = []\<rparr>"

text \<open>The same database when both users hold a refresh token.\<close>

definition demoRotationDB :: DB where
  "demoRotationDB =
     demoDB\<lparr>refresh_token :=
       [\<lparr>Token = ''uuid-0'', UserID = 1, ExpiryDate = 1750000000000000000\<rparr>,
        \<lparr>Token = ''uuid-7'', UserID = 2, ExpiryDate = 1750000000000000000\<rparr>]\<rparr>"

text \<open>
  Tokens that this deployment did not issue, each signed with its secret and valid
  until long after the instant \<open>demoNow\<close>: one naming another issuer and audience,
  one signed with HS384, one without the \<open>username\<close> claim.
\<close>

definition demoNow :: Time where
  "demoNow = 1750477561000000000"

definition demoForeignClaims :: MapClaims where
  "demoForeignClaims =
     [(''sub'', JStr ''admin''), (''aud'', JStr ''another_audience''),
      (''iss'', JStr ''another_issuer''), (''iat'', JNum 1750477500),
      (''exp'', JNum 1750650361), (''email'', JStr ''admin@mygmail.com''),
      (''userid'', JNum 1), (''username'', JStr ''admin''),
      (''roles'', JArr [JStr ''ROLE_ADMIN''])]"

definition demoForeignToken :: TokenString where
  "demoForeignToken =
     Compact (Some ''HS256'') demoForeignClaims
       (Sig ''HS256'' (Bytes (JWTSecret demoConfig)) (Some ''HS256'') demoForeignClaims)"

definition demoHS384Token :: TokenString where
  "demoHS384Token =
     Compact (Some ''HS384'') demoForeignClaims
       (Sig ''HS384'' (Bytes (JWTSecret demoConfig)) (Some ''HS384'') demoForeignClaims)"

definition demoNamelessClaims :: MapClaims where
  "demoNamelessClaims =
     [(''sub'', JStr ''admin''), (''exp'', JNum 1750650361), (''userid'', JNum 1),
      (''email'', JStr ''admin@mygmail.com''), (''roles'', JArr [JStr ''ROLE_ADMIN''])]"

definition demoNamelessToken :: TokenString where
  "demoNamelessToken =
     Compact (Some ''HS256'') demoNamelessClaims
       (Sig ''HS256'' (Bytes (JWTSecret demoConfig)) (Some ''HS256'') demoNamelessClaims)"

section \<open>Properties\<close>

subsection \<open>Numbers and strings\<close>

lemma ulpExponent_small: "a < 2 ^ 53 \<Longrightarrow> ulpExponent a = 0"
  by (simp add: ulpExponent.simps)

text \<open>The integers up to 2^53 in magnitude are read back as they were written.\<close>

lemma ParseFloat_exact:
  assumes "\<bar>n\<bar> \<le> 2 ^ 53"
  shows "ParseFloat n = n"
proof (cases "\<bar>n\<bar> = 2 ^ 53")
  case False
  with assms have "nat \<bar>n\<bar> < 2 ^ 53" by simp
  then show ?thesis
    by (simp add: ParseFloat_def Let_def ulpExponent_small sgn_if)
next
  case True
  have e: "ulpExponent 9007199254740992 = 1"
    by (subst ulpExponent.simps) (simp add: ulpExponent_small)
  from True have "n = 9007199254740992 \<or> n = - 9007199254740992" by auto
  then show ?thesis
    by (auto simp: ParseFloat_def Let_def e)
qed


lemma RuneCountInString_ascii:
  "\<forall>c \<in> set s. of_char c < (128::nat) \<Longrightarrow> RuneCountInString s = length s"
  by (induction s) (simp_all add: RuneCountInString.simps runeWidth_def)

subsection \<open>Role-based access control\<close>

lemma allowedLoop_iff: "allowedLoop r as \<longleftrightarrow> r \<in> set as"
  by (induction as) auto

lemma rolesLoop_iff: "rolesLoop rs as \<longleftrightarrow> set rs \<inter> set as \<noteq> {}"
  by (induction rs) (auto simp: allowedLoop_iff)

text \<open>
  Claim C7.  With an empty allow-list the request passes.  Otherwise a request without
  identity is answered 500, an identity without roles 403, an identity that shares a
  role with the allow-list (equal strings, so case matters) passes, and any other is
  answered 403.  The allow-list \<open>ROLE_ADMIN\<close> denies the roles \<open>ROLE_USER\<close>, allows the
  roles \<open>ROLE_ADMIN, ROLE_USER\<close> and denies \<open>role_admin\<close>.
\<close>

theorem RoleBasedAccessControl_decision:
  "RoleBasedAccessControl allowedRoles ctx =
     (if allowedRoles = [] then Next ctx
      else case ctx of
        None \<Rightarrow>
          Abort StatusInternalServerError ''Failed to extract metadata''
            (Detail ''Unable to extract user metadata from context'')
      | Some meta \<Rightarrow>
          if meta_Roles meta = []
          then Abort StatusForbidden ''No roles found'' (Detail ''User does not have any roles'')
          else if set (meta_Roles meta) \<inter> set allowedRoles \<noteq> {} then Next ctx
          else Abort StatusForbidden ''Access denied''
                 (Detail ''User does not have the required role''))
   \<and> RoleBasedAccessControl [''ROLE_ADMIN''] (Some (meta\<lparr>meta_Roles := [''ROLE_USER'']\<rparr>)) =
       Abort StatusForbidden ''Access denied'' (Detail ''User does not have the required role'')
   \<and> RoleBasedAccessControl [''ROLE_ADMIN'']
         (Some (meta\<lparr>meta_Roles := [''ROLE_ADMIN'', ''ROLE_USER'']\<rparr>)) =
       Next (Some (meta\<lparr>meta_Roles := [''ROLE_ADMIN'', ''ROLE_USER'']\<rparr>))
   \<and> RoleBasedAccessControl [''ROLE_ADMIN''] (Some (meta\<lparr>meta_Roles := [''role_admin'']\<rparr>)) =
       Abort StatusForbidden ''Access denied'' (Detail ''User does not have the required role'')"
  by (simp add: RoleBasedAccessControl_def rolesLoop_iff split: option.split)

subsection \<open>Token lifetimes\<close>

lemmas Atoi_eval = Atoi_def isDigit_def digitVal_def

lemma sint_Hour: "sint Hour = 3600000000000"
  by (simp add: Hour_def)

lemma sint_Second: "sint Second = 1000000000"
  by (simp add: Second_def)

lemma sint_mult_Hour:
  assumes "0 < sint (h::64 word)" "sint h \<le> 2562047"
  shows "sint (h * Hour) = sint h * 3600000000000"
proof -
  have "sint (h * Hour) = signed_take_bit 63 (sint h * sint Hour)"
    by (simp add: sint_word_ariths)
  also have "\<dots> = sint h * sint Hour"
    using assms by (intro signed_take_bit_int_eq_self) (simp_all add: sint_Hour)
  finally show ?thesis by (simp add: sint_Hour)
qed

lemma hours_in_seconds:
  assumes "0 < sint (h::64 word)" "sint h \<le> 2562047"
  shows "go_div (h * Hour) Second = h * 3600"
proof -
  have "sint (h * Hour) sdiv sint Second = sint h * 3600"
    using assms by (simp add: sint_mult_Hour sint_Second signed_divide_int_def)
  then show ?thesis by (simp add: go_div_def)
qed

lemma default_seconds: "go_div (24 * Hour) Second = 86400"
  by (simp add: go_div_def Hour_def Second_def signed_divide_int_def)

lemma sint_times_3600:
  assumes "0 < sint (h::64 word)" "sint h \<le> 2562047"
  shows "sint (h * 3600) = sint h * 3600"
proof -
  have "sint (h * 3600) = signed_take_bit 63 (sint h * sint (3600 :: 64 word))"
    by (simp only: sint_word_ariths len_of_numeral_defs) simp
  also have "\<dots> = sint h * 3600"
    using assms by (simp add: signed_take_bit_int_eq_self)
  finally show ?thesis .
qed

lemma sint_plus_seconds:
  assumes "0 < sint (h::64 word)" "sint h \<le> 2562047"
    and "sint (now::64 word) + sint h * 3600 < 2 ^ 63"
  shows "sint (now + h * 3600) = sint now + sint h * 3600"
proof -
  have lo: "- (2 ^ 63) \<le> sint now"
    using sint_ge [of now] by simp
  have "sint (now + h * 3600) = signed_take_bit 63 (sint now + sint (h * 3600))"
    by (simp add: sint_word_ariths)
  also have "\<dots> = sint now + sint h * 3600"
    using assms lo by (simp add: sint_times_3600 signed_take_bit_int_eq_self)
  finally show ?thesis .
qed

text \<open>
  Claim C8, as amended.  When the configured number of hours does not parse, or is not
  positive, the access token expires 86400 seconds after \<open>now\<close>.  When it is \<open>h\<close> with
  \<open>1 \<le> h \<le> 2562047\<close> (the largest number of hours a \<open>time.Duration\<close> holds), it
  expires \<open>3600 * h\<close> seconds after \<open>now\<close>, in 64-bit arithmetic, and exactly so when
  the sum fits 63 bits.  The refresh token's expiry is computed in the same way, in
  nanoseconds, from its own variable.
\<close>

theorem token_expiration_within_range:
  "(case Atoi (JWTExpirationHour cfg) of
      Inl err \<Rightarrow> GetJWTExpiration cfg now = now + 86400
    | Inr h \<Rightarrow>
        (sint h \<le> 0 \<longrightarrow> GetJWTExpiration cfg now = now + 86400) \<and>
        (0 < sint h \<and> sint h \<le> 2562047 \<longrightarrow> GetJWTExpiration cfg now = now + h * 3600) \<and>
        (0 < sint h \<and> sint h \<le> 2562047 \<and> sint now + sint h * 3600 < 2 ^ 63 \<longrightarrow>
           sint (GetJWTExpiration cfg now) = sint now + sint h * 3600))
   \<and>
   (case Atoi (RefreshTokenExpirationHour cfg) of
      Inl err \<Rightarrow> GetRefreshTokenExpiration cfg t = t + 24 * 3600000000000
    | Inr h \<Rightarrow>
        (sint h \<le> 0 \<longrightarrow> GetRefreshTokenExpiration cfg t = t + 24 * 3600000000000) \<and>
        (0 < sint h \<and> sint h \<le> 2562047 \<longrightarrow>
           GetRefreshTokenExpiration cfg t = t + sint h * 3600000000000))"
proof -
  have a: "GetJWTExpiration cfg now = now + 86400" if "Atoi (JWTExpirationHour cfg) = Inl e" for e
    using that by (simp add: GetJWTExpiration_def)
  have b: "GetJWTExpiration cfg now = now + 86400"
    if "Atoi (JWTExpirationHour cfg) = Inr h" "sint h \<le> 0" for h
    using that by (simp add: GetJWTExpiration_def default_seconds)
  have c: "GetJWTExpiration cfg now = now + h * 3600"
    if "Atoi (JWTExpirationHour cfg) = Inr h" "0 < sint h" "sint h \<le> 2562047" for h
    using that by (simp add: GetJWTExpiration_def hours_in_seconds)
  have c': "sint (GetJWTExpiration cfg now) = sint now + sint h * 3600"
    if "Atoi (JWTExpirationHour cfg) = Inr h" "0 < sint h" "sint h \<le> 2562047"
      "sint now + sint h * 3600 < 2 ^ 63" for h
    using that by (simp add: c sint_plus_seconds)
  have d: "GetRefreshTokenExpiration cfg t = t + 24 * 3600000000000"
    if "Atoi (RefreshTokenExpirationHour cfg) = Inl e" for e
    using that by (simp add: GetRefreshTokenExpiration_def Time_Add_def Hour_def)
  have e: "GetRefreshTokenExpiration cfg t = t + 24 * 3600000000000"
    if "Atoi (RefreshTokenExpirationHour cfg) = Inr h" "sint h \<le> 0" for h
    using that by (simp add: GetRefreshTokenExpiration_def Time_Add_def Hour_def)
  have f: "GetRefreshTokenExpiration cfg t = t + sint h * 3600000000000"
    if "Atoi (RefreshTokenExpirationHour cfg) = Inr h" "0 < sint h" "sint h \<le> 2562047" for h
    using that sint_mult_Hour [of h]
    by (simp add: GetRefreshTokenExpiration_def Time_Add_def mult.commute)
  show ?thesis
    using a b c c' d e f by (auto split: sum.split)
qed

theorem token_expiration_within_range_witness:
  "GetJWTExpiration demoConfig 1000 = 173800 \<and>
   sint (GetJWTExpiration demoConfig 1000) = 173800 \<and>
   GetRefreshTokenExpiration demoConfig 1000000000000 = 2593000000000000"
  using token_expiration_within_range [of demoConfig 1000 1000000000000]
  by (simp add: demoConfig_def Atoi_eval)

text \<open>
  Claim C8 as stated fails for a lifetime of 2562048 hours, which parses but does not
  fit a \<open>time.Duration\<close>: the product wraps and both tokens expire in the past.
\<close>

theorem token_expiration_overflow_counterexample:
  "Atoi ''2562048'' = Inr 2562048 \<and>
   sint (GetJWTExpiration (demoConfig\<lparr>JWTExpirationHour := ''2562048''\<rparr>) 1000) = - 9223370273 \<and>
   sint (GetJWTExpiration (demoConfig\<lparr>JWTExpirationHour := ''2562048''\<rparr>) 1000)
     \<noteq> 1000 + 2562048 * 3600 \<and>
   GetRefreshTokenExpiration (demoConfig\<lparr>RefreshTokenExpirationHour := ''2562048''\<rparr>) 0
     \<noteq> 0 + 2562048 * 3600000000000"
  by (simp add: demoConfig_def GetJWTExpiration_def GetRefreshTokenExpiration_def Atoi_eval
      Hour_def Second_def go_div_def signed_divide_int_def Time_Add_def)

subsection \<open>What the two writing services do to the database\<close>

lemma find_None_filter: "find P xs = None \<Longrightarrow> filter (\<lambda>x. \<not> P x) xs = xs"
  by (induction xs) (auto split: if_splits)

lemma find_SomeD: "find P xs = Some x \<Longrightarrow> x \<in> set xs \<and> P x"
  by (induction xs) (auto split: if_splits)

lemma CreateRefreshToken_eq:
  assumes "opened db"
  shows "refreshTokenService_CreateRefreshToken cfg now uuid db uid =
     (if find (\<lambda>r. UserID r = uid) (refresh_token db) = Some RefreshToken_zero
         \<or> (\<exists>r \<in> set (refresh_token db). UserID r \<noteq> uid \<and> Token r = uuid)
      then (Err (Errorf ''failed to create refresh token: %w'' [ArgE ErrDuplicatedKey]), db)
      else (Ok \<lparr>Token = uuid, UserID = uid, ExpiryDate = GetRefreshTokenExpiration cfg now\<rparr>,
            db\<lparr>refresh_token := filter (\<lambda>r. UserID r \<noteq> uid) (refresh_token db) @
               [\<lparr>Token = uuid, UserID = uid, ExpiryDate = GetRefreshTokenExpiration cfg now\<rparr>]\<rparr>))"
proof (cases "find (\<lambda>r. UserID r = uid) (refresh_token db)")
  case None
  then have no: "\<forall>r \<in> set (refresh_token db). UserID r \<noteq> uid"
    by (simp add: find_None_iff)
  have flt: "filter (\<lambda>r. UserID r \<noteq> uid) (refresh_token db) = refresh_token db"
    using find_None_filter [OF None] by simp
  show ?thesis
    using assms None no
    by (auto simp: refreshTokenService_CreateRefreshToken_def Transaction_def CreateRefreshToken_fc_def
        refreshTokenRepository_GetRefreshTokenByUserID_def refreshTokenRepository_CreateRefreshToken_def
        RefreshToken_Equals_def Let_def flt)
next
  case (Some e)
  then have e: "e \<in> set (refresh_token db)" "UserID e = uid"
    by (auto simp: find_Some_iff in_set_conv_nth)
  show ?thesis
  proof (cases "e = RefreshToken_zero")
    case True
    then show ?thesis
      using assms Some e
      by (auto simp: refreshTokenService_CreateRefreshToken_def Transaction_def CreateRefreshToken_fc_def
        refreshTokenRepository_GetRefreshTokenByUserID_def refreshTokenRepository_CreateRefreshToken_def
        RefreshToken_Equals_def Let_def)
  next
    case False
    then have ne: "\<not> RefreshToken_Equals e RefreshToken_zero"
      by (auto simp: RefreshToken_Equals_def)
    show ?thesis
      using assms Some False ne
      by (auto simp: refreshTokenService_CreateRefreshToken_def Transaction_def CreateRefreshToken_fc_def
        refreshTokenRepository_GetRefreshTokenByUserID_def refreshTokenRepository_CreateRefreshToken_def
        refreshTokenRepository_RemoveRefreshTokenByUserID_def Let_def)
  qed
qed

lemma UpdateLastLogin_eq:
  assumes "opened db"
  shows "userService_UpdateLastLogin db uid t =
     (case find (\<lambda>u. ID u = uid) (users db) of
        None \<Rightarrow> (Err ErrRecordNotFound, db)
      | Some u \<Rightarrow>
          if User_Equals_zero u then (Err (Errorf ''user with ID %d not found'' [ArgD uid]), db)
          else (case LastLogin u of
                  None \<Rightarrow> (Panic nilDereference, db)
                | Some old \<Rightarrow>
                    (Ok True, db\<lparr>users := map (\<lambda>x. if ID x = uid then u\<lparr>LastLogin := Some t\<rparr> else x) (users db)\<rparr>)))"
proof (cases "find (\<lambda>u. ID u = uid) (users db)")
  case None
  then show ?thesis using assms
    by (simp add: userService_UpdateLastLogin_def Transaction_def UpdateLastLogin_fc_def
        userRepository_GetUserByID_def)
next
  case (Some u)
  then have u: "u \<in> set (users db)" "ID u = uid"
    by (auto simp: find_Some_iff in_set_conv_nth)
  then have ex: "\<exists>x \<in> set (users db). ID x = uid" by blast
  show ?thesis using assms Some u ex
    by (auto simp: userService_UpdateLastLogin_def Transaction_def UpdateLastLogin_fc_def
        userRepository_GetUserByID_def userRepository_UpdateUser_def split: option.split)
qed


















lemma find_unique_by_ID:
  assumes "distinct (map ID us)" "u \<in> set us"
  shows "find (\<lambda>x. ID x = ID u) us = Some u"
  using assms
proof (induction us)
  case Nil
  then show ?case by simp
next
  case (Cons a us)
  show ?case
  proof (cases "ID a = ID u")
    case True
    with Cons.prems have "a = u" by (auto simp: image_iff)
    then show ?thesis by simp
  next
    case False
    with Cons show ?thesis by auto
  qed
qed




subsection \<open>The operations on the sample data\<close>

lemmas service_eval =
  authService_Login_def Login_fc_def issueAndRotate_def
  authService_RefreshToken_def RefreshToken_fc_def RefreshTokenRequest_Validate_def
  refreshTokenService_GetRefreshTokenByToken_def refreshTokenRepository_GetRefreshTokenByToken_def
  refreshTokenService_VerifyExpirationDate_def IsZero_def Time_After_def
  userService_GetUserByID_def
  Login_conditions_def LoginRequest_Validate_def Transaction_def userService_GetUserByUsername_def
  userRepository_GetUserByUsername_def lower_def toLower_def User_Equals_zero_def
  bcrypt_CompareHashAndPassword_def bcrypt_GenerateFromPassword_def GenerateJWTToken_def
  GenerateJWTTokenWithHS256_def GenerateJWTTokenWithRS256_def
  SigningMethodHS256_def SigningMethodRS256_def SignedString_def
  ParseJWTToken_def ParseJWTTokenWithHS256_def ParseJWTTokenWithRS256_def
  jwt_Parse_def GetSigningMethod_def Validate_def
  verifyExpiresAt_def verifyNotBefore_def parseNumericDate_def Time_Before_def time_Unix_def Time_Unix_def
  GetJWTExpiration_def Atoi_eval Hour_def Second_def go_div_def signed_divide_int_def
  GetExpirationDateFromToken_def refreshTokenService_CreateRefreshToken_def CreateRefreshToken_fc_def
  refreshTokenRepository_GetRefreshTokenByUserID_def refreshTokenRepository_CreateRefreshToken_def
  refreshTokenRepository_RemoveRefreshTokenByUserID_def GetRefreshTokenExpiration_def Time_Add_def
  RefreshToken_Equals_def RefreshToken_zero_def zeroTime_def userService_UpdateLastLogin_def
  UpdateLastLogin_fc_def userRepository_GetUserByID_def userRepository_UpdateUser_def ExtractRoleNames_def
  UnmarshalClaims_def ParseFloat_exact int64_of_float64_def RuneCountInString_ascii
  Let_def

lemmas demo_data =
  demoConfig_def demoAdmin_def demoNewUser_def demoDB_def demoLoginRequest_def demoNewUserRequest_def

lemma demo_new_user_login:
  "authService_Login demoConfig 1750477561000000000 ''uuid-3''
       (demoDB\<lparr>refresh_token := [\<lparr>Token = ''uuid-0'', UserID = 2, ExpiryDate = 1753069561000000000\<rparr>]\<rparr>)
       demoNewUserRequest =
     (Panic nilDereference,
      demoDB\<lparr>refresh_token := [\<lparr>Token = ''uuid-3'', UserID = 2, ExpiryDate = 1753069561000000000\<rparr>]\<rparr>)"
  by (simp add: service_eval demo_data)

subsection \<open>One refresh token per user\<close>

lemma demo_rotation_create:
  "refreshTokenService_CreateRefreshToken demoConfig 1750477561000000000 ''uuid-1'' demoRotationDB 1 =
     (Ok \<lparr>Token = ''uuid-1'', UserID = 1, ExpiryDate = 1753069561000000000\<rparr>,
      demoDB\<lparr>refresh_token :=
        [\<lparr>Token = ''uuid-7'', UserID = 2, ExpiryDate = 1750000000000000000\<rparr>,
         \<lparr>Token = ''uuid-1'', UserID = 1, ExpiryDate = 1753069561000000000\<rparr>]\<rparr>)"
  by (auto simp: service_eval demo_data demoRotationDB_def)












subsection \<open>Expired refresh tokens\<close>

text \<open>
  Claim C1, as amended.  When the refresh token of the request is stored with an expiry
  date before \<open>now\<close>, \<open>RefreshToken\<close> returns the error "refresh token is expired":
  no tokens are issued and the database is left as it was.
\<close>

theorem RefreshToken_rejects_expired:
  assumes "refreshTokenService_GetRefreshTokenByToken db (req_RefreshToken refreshTokenReq) = Inr existing"
    and "req_RefreshToken refreshTokenReq \<noteq> []"
    and "Time_After now (ExpiryDate existing)"
  shows "authService_RefreshToken cfg now uuid db refreshTokenReq =
           (Err (Errorf ''refresh token is expired'' []), db)"
proof -
  have op: "opened db"
    using assms(1) by (auto simp: refreshTokenService_GetRefreshTokenByToken_def split: if_splits)
  have "find (\<lambda>r. Token r = req_RefreshToken refreshTokenReq) (refresh_token db) = Some existing"
    using assms(1) op
    by (auto simp: refreshTokenService_GetRefreshTokenByToken_def
        refreshTokenRepository_GetRefreshTokenByToken_def split: option.splits)
  then have "Token existing = req_RefreshToken refreshTokenReq"
    by (auto simp: find_Some_iff)
  with assms(2) have nz: "\<not> RefreshToken_Equals existing RefreshToken_zero"
    by (auto simp: RefreshToken_Equals_def RefreshToken_zero_def)
  have nok: "\<not> fst (refreshTokenService_VerifyExpirationDate now (ExpiryDate existing))"
    using assms(3) by (simp add: refreshTokenService_VerifyExpirationDate_def)
  have "RefreshToken_fc cfg now uuid refreshTokenReq (Tx []) db =
      (Err (Errorf ''refresh token is expired'' []), Tx [], db)"
    using assms(1) nz nok by (simp add: RefreshToken_fc_def)
  then show ?thesis
    using op assms(2)
    by (simp add: authService_RefreshToken_def RefreshTokenRequest_Validate_def Transaction_def)
qed

theorem RefreshToken_rejects_expired_witness:
  "authService_RefreshToken demoConfig 1750477561000000000 ''uuid-9''
     (demoDB\<lparr>refresh_token := [\<lparr>Token = ''uuid-0'', UserID = 1, ExpiryDate = 1750477560000000000\<rparr>]\<rparr>)
     \<lparr>req_RefreshToken = ''uuid-0''\<rparr> =
   (Err (Errorf ''refresh token is expired'' []),
    demoDB\<lparr>refresh_token := [\<lparr>Token = ''uuid-0'', UserID = 1, ExpiryDate = 1750477560000000000\<rparr>]\<rparr>)"
proof -
  have "refreshTokenService_GetRefreshTokenByToken
          (demoDB\<lparr>refresh_token := [\<lparr>Token = ''uuid-0'', UserID = 1, ExpiryDate = 1750477560000000000\<rparr>]\<rparr>)
          (req_RefreshToken \<lparr>req_RefreshToken = ''uuid-0''\<rparr>) =
        Inr \<lparr>Token = ''uuid-0'', UserID = 1, ExpiryDate = 1750477560000000000\<rparr>"
    by (simp add: refreshTokenService_GetRefreshTokenByToken_def
        refreshTokenRepository_GetRefreshTokenByToken_def demoDB_def)
  moreover have "req_RefreshToken \<lparr>req_RefreshToken = ''uuid-0''\<rparr> \<noteq> []"
    by simp
  moreover have "Time_After 1750477561000000000
      (ExpiryDate \<lparr>Token = ''uuid-0'', UserID = 1, ExpiryDate = 1750477560000000000\<rparr>)"
    by (simp add: Time_After_def)
  ultimately show ?thesis
    by (rule RefreshToken_rejects_expired)
qed

text \<open>
  Claim C1 as stated fails: the expired token of the sample request is rejected, and
  nothing is reissued.
\<close>

theorem RefreshToken_expired_counterexample:
  "Time_After 1750477561000000000 1750477560000000000 \<and>
   authService_RefreshToken demoConfig 1750477561000000000 ''uuid-9''
     (demoDB\<lparr>refresh_token := [\<lparr>Token = ''uuid-0'', UserID = 1, ExpiryDate = 1750477560000000000\<rparr>]\<rparr>)
     \<lparr>req_RefreshToken = ''uuid-0''\<rparr> =
   (Err (Errorf ''refresh token is expired'' []),
    demoDB\<lparr>refresh_token := [\<lparr>Token = ''uuid-0'', UserID = 1, ExpiryDate = 1750477560000000000\<rparr>]\<rparr>)"
  by (simp add: service_eval demo_data)

subsection \<open>A user who has never logged in\<close>

text \<open>
  Claim C10.  For a stored user whose \<open>LastLogin\<close> is \<open>nil\<close>, a login that passes
  every check and gets its access token and its refresh token reaches the assignment
  \<open>*existingUser.LastLogin = lastLogin\<close> and panics; \<open>Login\<close> returns neither a
  response nor an error.
\<close>

theorem Login_panics_on_nil_LastLogin:
  assumes "opened db"
    and "LoginRequest_Validate loginReq = None"
    and "userService_GetUserByUsername db (login_Username loginReq) = Inr existingUser"
    and "Login_conditions loginReq existingUser = Ok ()"
    and "LastLogin existingUser = None"
    and "distinct (map ID (users db))"
    and "GenerateJWTToken cfg now existingUser = Inr tokenStr"
    and "ParseJWTToken cfg now tokenStr = Inr jwtToken"
    and "GetExpirationDateFromToken jwtToken = Inr expirationDate"
    and "uuid \<noteq> []"
    and "\<forall>r \<in> set (refresh_token db). r \<noteq> RefreshToken_zero \<and> (UserID r \<noteq> ID existingUser \<longrightarrow> Token r \<noteq> uuid)"
  shows "fst (authService_Login cfg now uuid db loginReq) = Panic nilDereference"
proof -
  define new where
    "new = \<lparr>Token = uuid, UserID = ID existingUser, ExpiryDate = GetRefreshTokenExpiration cfg now\<rparr>"
  define db1 where
    "db1 = db\<lparr>refresh_token := filter (\<lambda>r. UserID r \<noteq> ID existingUser) (refresh_token db) @ [new]\<rparr>"
  have uin: "existingUser \<in> set (users db)"
    using assms(1,3)
    by (auto simp: userService_GetUserByUsername_def userRepository_GetUserByUsername_def
        split: option.splits dest: find_SomeD)
  have nz: "\<not> User_Equals_zero existingUser"
    using assms(4) by (auto simp: Login_conditions_def split: if_splits)
  have nofind: "find (\<lambda>r. UserID r = ID existingUser) (refresh_token db) \<noteq> Some RefreshToken_zero"
    using assms(11) find_SomeD [of "\<lambda>r. UserID r = ID existingUser" "refresh_token db" RefreshToken_zero]
    by blast
  have create: "refreshTokenService_CreateRefreshToken cfg now uuid db (ID existingUser) = (Ok new, db1)"
    using assms(11) nofind by (auto simp: CreateRefreshToken_eq [OF assms(1)] new_def db1_def)
  have new_nz: "\<not> RefreshToken_Equals new RefreshToken_zero"
    using assms(10) by (simp add: RefreshToken_Equals_def RefreshToken_zero_def new_def)
  have op1: "opened db1"
    using assms(1) by (simp add: db1_def)
  have "find (\<lambda>x. ID x = ID existingUser) (users db1) = Some existingUser"
    using find_unique_by_ID [OF assms(6) uin] by (simp add: db1_def)
  then have upd: "userService_UpdateLastLogin db1 (ID existingUser) now = (Panic nilDereference, db1)"
    using nz assms(5) by (simp add: UpdateLastLogin_eq [OF op1])
  have "issueAndRotate cfg now uuid existingUser (Tx []) db = (Panic nilDereference, Tx [], db1)"
    using assms(7,8,9) create new_nz upd by (simp add: issueAndRotate_def)
  then have "Login_fc cfg now uuid loginReq (Tx []) db = (Panic nilDereference, Tx [], db1)"
    using assms(3,4) by (simp add: Login_fc_def)
  then show ?thesis
    using assms(1,2) by (simp add: authService_Login_def Transaction_def)
qed

theorem Login_panics_on_nil_LastLogin_witness:
  "LastLogin demoNewUser = None \<and>
   userService_GetUserByUsername
     (demoDB\<lparr>refresh_token := [\<lparr>Token = ''uuid-0'', UserID = 2, ExpiryDate = 1753069561000000000\<rparr>]\<rparr>)
     (login_Username demoNewUserRequest) = Inr demoNewUser \<and>
   fst (authService_Login demoConfig 1750477561000000000 ''uuid-3''
          (demoDB\<lparr>refresh_token := [\<lparr>Token = ''uuid-0'', UserID = 2, ExpiryDate = 1753069561000000000\<rparr>]\<rparr>)
          demoNewUserRequest) = Panic nilDereference"
proof -
  define db where
    "db = demoDB\<lparr>refresh_token := [\<lparr>Token = ''uuid-0'', UserID = 2, ExpiryDate = 1753069561000000000\<rparr>]\<rparr>"
  have h1: "opened db"
    by (simp add: db_def demoDB_def)
  have h2: "LoginRequest_Validate demoNewUserRequest = None"
    by (simp add: LoginRequest_Validate_def demoNewUserRequest_def RuneCountInString_ascii)
  have h3: "userService_GetUserByUsername db (login_Username demoNewUserRequest) = Inr demoNewUser"
    by (simp add: db_def service_eval demo_data)
  have h4: "Login_conditions demoNewUserRequest demoNewUser = Ok ()"
    by (simp add: service_eval demo_data)
  have h5: "LastLogin demoNewUser = None"
    by (simp add: demoNewUser_def)
  have h6: "distinct (map ID (users db))"
    by (simp add: db_def demo_data)
  obtain tokenStr jwtToken expirationDate where
    h7: "GenerateJWTToken demoConfig 1750477561000000000 demoNewUser = Inr tokenStr"
    and h8: "ParseJWTToken demoConfig 1750477561000000000 tokenStr = Inr jwtToken"
    and h9: "GetExpirationDateFromToken jwtToken = Inr expirationDate"
  proof -
    have "\<exists>tokenStr jwtToken expirationDate.
        GenerateJWTToken demoConfig 1750477561000000000 demoNewUser = Inr tokenStr \<and>
        ParseJWTToken demoConfig 1750477561000000000 tokenStr = Inr jwtToken \<and>
        GetExpirationDateFromToken jwtToken = Inr expirationDate"
      by (simp add: service_eval demo_data)
    then show ?thesis
      using that by blast
  qed
  have h10: "''uuid-3'' \<noteq> []"
    by simp
  have h11: "\<forall>r \<in> set (refresh_token db).
      r \<noteq> RefreshToken_zero \<and> (UserID r \<noteq> ID demoNewUser \<longrightarrow> Token r \<noteq> ''uuid-3'')"
    by (simp add: db_def demo_data RefreshToken_zero_def)
  have "fst (authService_Login demoConfig 1750477561000000000 ''uuid-3'' db demoNewUserRequest)
      = Panic nilDereference"
    using h1 h2 h3 h4 h5 h6 h7 h8 h9 h10 h11 by (rule Login_panics_on_nil_LastLogin)
  with h3 h5 show ?thesis
    unfolding db_def by simp
qed

subsection \<open>Atomicity of \<open>Login\<close>\<close>

text \<open>
  Claim C5 fails on the code.  The second user of the sample data holds the refresh
  token \<open>uuid-0\<close> and logs in with the right password: the call panics at the
  last-login update, no last login is recorded, and yet the table holds \<open>uuid-3\<close> in
  place of \<open>uuid-0\<close>, committed by the transaction of \<open>CreateRefreshToken\<close> on the
  pool.  With a wrong password the same call returns an error and changes nothing.
\<close>

theorem Login_not_atomic:
  "authService_Login demoConfig 1750477561000000000 ''uuid-3''
       (demoDB\<lparr>refresh_token := [\<lparr>Token = ''uuid-0'', UserID = 2, ExpiryDate = 1753069561000000000\<rparr>]\<rparr>)
       demoNewUserRequest =
     (Panic nilDereference,
      demoDB\<lparr>refresh_token := [\<lparr>Token = ''uuid-3'', UserID = 2, ExpiryDate = 1753069561000000000\<rparr>]\<rparr>)
   \<and> refresh_token
        (snd (authService_Login demoConfig 1750477561000000000 ''uuid-3''
               (demoDB\<lparr>refresh_token :=
                  [\<lparr>Token = ''uuid-0'', UserID = 2, ExpiryDate = 1753069561000000000\<rparr>]\<rparr>)
               demoNewUserRequest))
      \<noteq> [\<lparr>Token = ''uuid-0'', UserID = 2, ExpiryDate = 1753069561000000000\<rparr>]
   \<and> authService_Login demoConfig 1750477561000000000 ''uuid-3''
       (demoDB\<lparr>refresh_token := [\<lparr>Token = ''uuid-0'', UserID = 2, ExpiryDate = 1753069561000000000\<rparr>]\<rparr>)
       \<lparr>login_Username = ''userone'', login_Password = ''not-the-password''\<rparr> =
     (Err (Errorf ''invalid credentials for user %s'' [ArgS ''userone'']),
      demoDB\<lparr>refresh_token := [\<lparr>Token = ''uuid-0'', UserID = 2, ExpiryDate = 1753069561000000000\<rparr>]\<rparr>)"
proof -
  have wrong: "authService_Login demoConfig 1750477561000000000 ''uuid-3''
       (demoDB\<lparr>refresh_token := [\<lparr>Token = ''uuid-0'', UserID = 2, ExpiryDate = 1753069561000000000\<rparr>]\<rparr>)
       \<lparr>login_Username = ''userone'', login_Password = ''not-the-password''\<rparr> =
     (Err (Errorf ''invalid credentials for user %s'' [ArgS ''userone'']),
      demoDB\<lparr>refresh_token := [\<lparr>Token = ''uuid-0'', UserID = 2, ExpiryDate = 1753069561000000000\<rparr>]\<rparr>)"
    by (simp add: service_eval demo_data)
  show ?thesis
    using wrong by (simp add: demo_new_user_login)
qed

subsection \<open>Signing and verifying\<close>

lemma GetSigningMethod_HMAC:
  "alg \<in> set [''HS256'', ''HS384'', ''HS512''] \<Longrightarrow> GetSigningMethod alg = Some (SigningMethodHMAC alg)"
  by (simp add: GetSigningMethod_def)

lemma GetSigningMethod_RSA:
  "alg \<in> set [''RS256'', ''RS384'', ''RS512''] \<Longrightarrow> GetSigningMethod alg = Some (SigningMethodRSA alg)"
  by (auto simp: GetSigningMethod_def)

lemma ParseJWTTokenWithHS256_accepts:
  assumes "alg \<in> set [''HS256'', ''HS384'', ''HS512'']" "Validate now claims = []"
  shows "ParseJWTTokenWithHS256 cfg now
           (Compact (Some alg) claims (Sig alg (Bytes (JWTSecret cfg)) (Some alg) claims)) =
         Inr \<lparr>Method = SigningMethodHMAC alg, Header_alg = alg, Claims = claims, Valid = True\<rparr>"
  using assms(2)
  by (simp add: ParseJWTTokenWithHS256_def jwt_Parse_def GetSigningMethod_HMAC [OF assms(1)])











subsection \<open>The identity claims in the middleware\<close>

lemma JwtValidation_bearer:
  assumes "tokenStr \<noteq> []"
  shows "JwtValidation cfg decode now (TokenType cfg @ '' '' @ tokenStr) =
     (case jwt_Parse now (decode tokenStr) (JwtValidation_keyFunc cfg) of
        Inl err \<Rightarrow> Ok (Abort StatusUnauthorized ''Invalid token'' (DetailErr err))
      | Inr token \<Rightarrow>
          if \<not> Valid token
          then Ok (Abort StatusUnauthorized ''Invalid token'' (Detail ''Token is not valid''))
          else
            (case map_of (Claims token) ''username'' of
               Some (JStr username) \<Rightarrow>
                 (case map_of (Claims token) ''email'' of
                    Some (JStr email) \<Rightarrow>
                      Ok (Next (Some \<lparr>meta_UserID =
                                        (case GetInt64Claim (Claims token) ''userid'' of
                                           Inl err \<Rightarrow> 0 | Inr v \<Rightarrow> v),
                                      meta_Username = username,
                                      meta_Email = email,
                                      meta_Roles = GetStringSliceClaim (Claims token) ''roles''\<rparr>))
                  | _ \<Rightarrow> Panic interfaceConversion)
             | _ \<Rightarrow> Panic interfaceConversion))"
  using assms
  by (auto simp: JwtValidation_def Let_def split: sum.split option.split jvalue.split)

lemma jwt_Parse_middleware_HS256:
  assumes "Validate now claims = []"
  shows "jwt_Parse now
           (Compact (Some ''HS256'') claims (Sig ''HS256'' (Bytes (JWTSecret cfg)) (Some ''HS256'') claims))
           (JwtValidation_keyFunc cfg) =
         Inr \<lparr>Method = SigningMethodHMAC ''HS256'', Header_alg = ''HS256'', Claims = claims,
              Valid = True\<rparr>"
  using assms
  by (simp add: jwt_Parse_def GetSigningMethod_def JwtValidation_keyFunc_def SigningMethodHS256_def)

text \<open>
  Claim C9.  A token that carries a correct HS256 signature under the configured secret
  and claims the validator accepts passes \<open>jwt.Parse\<close> in the middleware; when its
  \<open>username\<close> or its \<open>email\<close> claim is absent or not a string, the middleware panics
  at the type assertion instead of answering 401.
\<close>

theorem JwtValidation_panics_on_missing_identity_claim:
  assumes "decode tokenStr =
             Compact (Some ''HS256'') claims (Sig ''HS256'' (Bytes (JWTSecret cfg)) (Some ''HS256'') claims)"
    and "tokenStr \<noteq> []"
    and "Validate now claims = []"
    and "(\<forall>s. map_of claims ''username'' \<noteq> Some (JStr s)) \<or>
         (\<forall>s. map_of claims ''email'' \<noteq> Some (JStr s))"
  shows "(\<exists>token. jwt_Parse now (decode tokenStr) (JwtValidation_keyFunc cfg) = Inr token \<and>
                  Valid token \<and> Claims token = claims)
       \<and> JwtValidation cfg decode now (TokenType cfg @ '' '' @ tokenStr) = Panic interfaceConversion"
proof -
  have p: "jwt_Parse now (decode tokenStr) (JwtValidation_keyFunc cfg) =
         Inr \<lparr>Method = SigningMethodHMAC ''HS256'', Header_alg = ''HS256'', Claims = claims,
              Valid = True\<rparr>"
    unfolding assms(1) using assms(3) by (rule jwt_Parse_middleware_HS256)
  have "JwtValidation cfg decode now (TokenType cfg @ '' '' @ tokenStr) = Panic interfaceConversion"
    unfolding JwtValidation_bearer [OF assms(2)] p
    using assms(4) by (auto split: option.split jvalue.split)
  with p show ?thesis by simp
qed

theorem JwtValidation_panics_on_missing_identity_claim_witness:
  "jwt_Parse demoNow demoNamelessToken (JwtValidation_keyFunc demoConfig) =
     Inr \<lparr>Method = SigningMethodHMAC ''HS256'', Header_alg = ''HS256'', Claims = demoNamelessClaims,
          Valid = True\<rparr>
   \<and> map_of demoNamelessClaims ''username'' = None
   \<and> JwtValidation demoConfig (\<lambda>s. demoNamelessToken) demoNow ''Bearer eyJhbGciOiJIUzI1NiJ9.e30.c2ln'' =
       Panic interfaceConversion"
proof -
  have h1: "(\<lambda>s. demoNamelessToken) ''eyJhbGciOiJIUzI1NiJ9.e30.c2ln'' =
      Compact (Some ''HS256'') demoNamelessClaims
        (Sig ''HS256'' (Bytes (JWTSecret demoConfig)) (Some ''HS256'') demoNamelessClaims)"
    by (simp add: demoNamelessToken_def)
  have h2: "''eyJhbGciOiJIUzI1NiJ9.e30.c2ln'' \<noteq> []"
    by simp
  have h3: "Validate demoNow demoNamelessClaims = []"
    by (simp add: demoNamelessClaims_def demoNow_def Validate_def verifyExpiresAt_def
        verifyNotBefore_def parseNumericDate_def Time_Before_def time_Unix_def int64_of_float64_def)
  have h4: "(\<forall>s. map_of demoNamelessClaims ''username'' \<noteq> Some (JStr s)) \<or>
         (\<forall>s. map_of demoNamelessClaims ''email'' \<noteq> Some (JStr s))"
    by (simp add: demoNamelessClaims_def)
  have n: "map_of demoNamelessClaims ''username'' = None"
    by (simp add: demoNamelessClaims_def)
  have tt: "TokenType demoConfig @ '' '' @ ''eyJhbGciOiJIUzI1NiJ9.e30.c2ln'' =
      ''Bearer eyJhbGciOiJIUzI1NiJ9.e30.c2ln''"
    by (simp add: demoConfig_def)
  note inst = JwtValidation_panics_on_missing_identity_claim
    [where decode = "\<lambda>s. demoNamelessToken" and tokenStr = "''eyJhbGciOiJIUzI1NiJ9.e30.c2ln''"
       and claims = demoNamelessClaims and cfg = demoConfig and now = demoNow]
  from inst h1 h2 h3 h4
  have "JwtValidation demoConfig (\<lambda>s. demoNamelessToken) demoNow
          (TokenType demoConfig @ '' '' @ ''eyJhbGciOiJIUzI1NiJ9.e30.c2ln'') = Panic interfaceConversion"
    by blast
  then have "JwtValidation demoConfig (\<lambda>s. demoNamelessToken) demoNow
          ''Bearer eyJhbGciOiJIUzI1NiJ9.e30.c2ln'' = Panic interfaceConversion"
    unfolding tt .
  moreover have "jwt_Parse demoNow demoNamelessToken (JwtValidation_keyFunc demoConfig) =
     Inr \<lparr>Method = SigningMethodHMAC ''HS256'', Header_alg = ''HS256'', Claims = demoNamelessClaims,
          Valid = True\<rparr>"
    unfolding demoNamelessToken_def using h3 by (rule jwt_Parse_middleware_HS256)
  ultimately show ?thesis
    using n by simp
qed

subsection \<open>Algorithms\<close>

lemma jwt_Parse_keyFunc_error:
  assumes "GetSigningMethod alg = Some m"
    and "keyFunc \<lparr>Method = m, Header_alg = alg, Claims = claims, Valid = False\<rparr> = Inl err"
  shows "jwt_Parse now (Compact (Some alg) claims sg) keyFunc = Inl (ErrTokenUnverifiable err)"
  using assms by (simp add: jwt_Parse_def)

lemma GetSigningMethod_cases:
  assumes "GetSigningMethod alg = Some m"
  obtains "alg \<in> set [''HS256'', ''HS384'', ''HS512'']" "m = SigningMethodHMAC alg"
  | "alg \<notin> set [''HS256'', ''HS384'', ''HS512'']" "alg \<in> set [''RS256'', ''RS384'', ''RS512'']" 
      "m = SigningMethodRSA alg"
  | "alg \<notin> set [''HS256'', ''HS384'', ''HS512'']" "alg \<notin> set [''RS256'', ''RS384'', ''RS512'']"
      "\<not> isSigningMethodHMAC m" "\<not> isSigningMethodRSA m" "Alg m = alg"
proof -
  define H where "H = set [''HS256'', ''HS384'', ''HS512'']"
  define R where "R = set [''RS256'', ''RS384'', ''RS512'']"
  define P where "P = set [''PS256'', ''PS384'', ''PS512'']"
  define E where "E = set [''ES256'', ''ES384'', ''ES512'']"
  have g: "GetSigningMethod alg =
     (if alg \<in> H then Some (SigningMethodHMAC alg)
      else if alg \<in> R then Some (SigningMethodRSA alg)
      else if alg \<in> P then Some (SigningMethodRSAPSS alg)
      else if alg \<in> E then Some (SigningMethodECDSA alg)
      else if alg = ''EdDSA'' then Some SigningMethodEd25519
      else if alg = ''none'' then Some signingMethodNone
      else None)"
    unfolding GetSigningMethod_def H_def R_def P_def E_def ..
  show ?thesis
  proof (cases "alg \<in> H")
    case True
    with assms g have "m = SigningMethodHMAC alg" by simp
    with True that(1) show ?thesis unfolding H_def by blast
  next
    case nh: False
    show ?thesis
    proof (cases "alg \<in> R")
      case True
      with nh assms g have "m = SigningMethodRSA alg" by simp
      with True nh that(2) show ?thesis unfolding H_def R_def by blast
    next
      case nr: False
      from nh nr assms g have "\<not> isSigningMethodHMAC m \<and> \<not> isSigningMethodRSA m \<and> Alg m = alg"
        by (auto split: if_splits)
      with nh nr that(3) show ?thesis unfolding H_def R_def by blast
    qed
  qed
qed

lemma jwt_Parse_HMAC:
  assumes "alg \<in> set [''HS256'', ''HS384'', ''HS512'']"
    and "keyFunc \<lparr>Method = SigningMethodHMAC alg, Header_alg = alg, Claims = claims, Valid = False\<rparr> =
           Inr (Bytes k)"
  shows "jwt_Parse now (Compact (Some alg) claims sg) keyFunc =
     (if sg \<noteq> Sig alg (Bytes k) (Some alg) claims
      then Inl (ErrTokenSignatureInvalid ErrSignatureInvalid)
      else case Validate now claims of
             [] \<Rightarrow> Inr \<lparr>Method = SigningMethodHMAC alg, Header_alg = alg, Claims = claims, Valid = True\<rparr>
           | e # es \<Rightarrow> Inl (ErrTokenInvalidClaims (e # es)))"
  using assms(2)
  by (simp add: jwt_Parse_def GetSigningMethod_HMAC [OF assms(1)] split: list.split)

lemma jwt_Parse_RSA:
  assumes "alg \<in> set [''RS256'', ''RS384'', ''RS512'']"
    and "keyFunc \<lparr>Method = SigningMethodRSA alg, Header_alg = alg, Claims = claims, Valid = False\<rparr> =
           Inr (RSAPublicKey n)"
  shows "jwt_Parse now (Compact (Some alg) claims sg) keyFunc =
     (if sg \<noteq> Sig alg (RSAPrivateKey n) (Some alg) claims
      then Inl (ErrTokenSignatureInvalid ErrSignatureInvalid)
      else case Validate now claims of
             [] \<Rightarrow> Inr \<lparr>Method = SigningMethodRSA alg, Header_alg = alg, Claims = claims, Valid = True\<rparr>
           | e # es \<Rightarrow> Inl (ErrTokenInvalidClaims (e # es)))"
  using assms(2)
  by (simp add: jwt_Parse_def GetSigningMethod_RSA [OF assms(1)] split: list.split)

lemma jwt_Parse_Valid: "jwt_Parse now tokenString keyFunc = Inr token \<Longrightarrow> Valid token"
  by (auto simp: jwt_Parse_def Let_def split: TokenString.splits option.splits sum.splits list.splits)

text \<open>The key the middleware's key function returns, by the header.\<close>

lemma JwtValidation_keyFunc_eq:
  assumes "GetSigningMethod alg = Some m"
  shows "JwtValidation_keyFunc cfg \<lparr>Method = m, Header_alg = alg, Claims = claims, Valid = False\<rparr> =
     (if alg = ''HS256'' then Inr (Bytes (JWTSecret cfg))
      else case LoadPublicKey cfg of
             Inl err \<Rightarrow> Inl err
           | Inr publicKey \<Rightarrow>
               if isSigningMethodRSA m then Inr (RSAPublicKey publicKey)
               else Inl (Errorf ''unexpected signing method: %v'' [ArgS alg]))"
  using assms
proof (cases rule: GetSigningMethod_cases)
  case 1
  then show ?thesis
    by (simp add: JwtValidation_keyFunc_def SigningMethodHS256_def split: sum.split)
next
  case 2
  then have "alg \<noteq> ''HS256''" by auto
  with 2 show ?thesis
    by (simp add: JwtValidation_keyFunc_def SigningMethodHS256_def split: sum.split)
next
  case 3
  then have "alg \<noteq> ''HS256''" by auto
  with 3 show ?thesis
    by (simp add: JwtValidation_keyFunc_def SigningMethodHS256_def split: sum.split)
qed


lemma ParseJWTToken_HS256_table:
  assumes "SigningMethod cfg = ''HS256''"
  shows "ParseJWTToken cfg now Malformed =
           Inl (Errorf ''failed to parse JWT token: %v'' [ArgE ErrTokenMalformed])"
    and "ParseJWTToken cfg now (Compact None claims sg) =
           Inl (Errorf ''failed to parse JWT token: %v''
                  [ArgE (ErrTokenUnverifiable (Errorf ''signing method (alg) is unspecified'' []))])"
    and "GetSigningMethod alg = None \<Longrightarrow>
         ParseJWTToken cfg now (Compact (Some alg) claims sg) =
           Inl (Errorf ''failed to parse JWT token: %v''
                  [ArgE (ErrTokenUnverifiable (Errorf ''signing method (alg) is unavailable'' []))])"
    and "GetSigningMethod alg = Some m \<Longrightarrow> \<not> isSigningMethodHMAC m \<Longrightarrow>
         ParseJWTToken cfg now (Compact (Some alg) claims sg) =
           Inl (Errorf ''failed to parse JWT token: %v''
                  [ArgE (ErrTokenUnverifiable (Errorf ''unexpected signing method: %v'' [ArgS alg]))])"
    and "alg \<in> set [''HS256'', ''HS384'', ''HS512''] \<Longrightarrow>
         ParseJWTToken cfg now (Compact (Some alg) claims sg) =
           (if sg \<noteq> Sig alg (Bytes (JWTSecret cfg)) (Some alg) claims
            then Inl (Errorf ''failed to parse JWT token: %v''
                        [ArgE (ErrTokenSignatureInvalid ErrSignatureInvalid)])
            else case Validate now claims of
                   [] \<Rightarrow> Inr \<lparr>Method = SigningMethodHMAC alg, Header_alg = alg, Claims = claims,
                              Valid = True\<rparr>
                 | e # es \<Rightarrow> Inl (Errorf ''failed to parse JWT token: %v''
                                    [ArgE (ErrTokenInvalidClaims (e # es))]))"
proof -
  have p: "ParseJWTToken cfg now t = ParseJWTTokenWithHS256 cfg now t" for t
    using assms by (simp add: ParseJWTToken_def SigningMethodHS256_def)
  show "ParseJWTToken cfg now Malformed =
           Inl (Errorf ''failed to parse JWT token: %v'' [ArgE ErrTokenMalformed])"
    by (simp add: p ParseJWTTokenWithHS256_def jwt_Parse_def)
  show "ParseJWTToken cfg now (Compact None claims sg) =
           Inl (Errorf ''failed to parse JWT token: %v''
                  [ArgE (ErrTokenUnverifiable (Errorf ''signing method (alg) is unspecified'' []))])"
    by (simp add: p ParseJWTTokenWithHS256_def jwt_Parse_def)
  show "ParseJWTToken cfg now (Compact (Some alg) claims sg) =
           Inl (Errorf ''failed to parse JWT token: %v''
                  [ArgE (ErrTokenUnverifiable (Errorf ''signing method (alg) is unavailable'' []))])"
    if "GetSigningMethod alg = None"
    using that by (simp add: p ParseJWTTokenWithHS256_def jwt_Parse_def)
  show "ParseJWTToken cfg now (Compact (Some alg) claims sg) =
           Inl (Errorf ''failed to parse JWT token: %v''
                  [ArgE (ErrTokenUnverifiable (Errorf ''unexpected signing method: %v'' [ArgS alg]))])"
    if "GetSigningMethod alg = Some m" "\<not> isSigningMethodHMAC m"
    using that by (simp add: p ParseJWTTokenWithHS256_def jwt_Parse_keyFunc_error [where m = m])
  show "ParseJWTToken cfg now (Compact (Some alg) claims sg) =
           (if sg \<noteq> Sig alg (Bytes (JWTSecret cfg)) (Some alg) claims
            then Inl (Errorf ''failed to parse JWT token: %v''
                        [ArgE (ErrTokenSignatureInvalid ErrSignatureInvalid)])
            else case Validate now claims of
                   [] \<Rightarrow> Inr \<lparr>Method = SigningMethodHMAC alg, Header_alg = alg, Claims = claims,
                              Valid = True\<rparr>
                 | e # es \<Rightarrow> Inl (Errorf ''failed to parse JWT token: %v''
                                    [ArgE (ErrTokenInvalidClaims (e # es))]))"
    if "alg \<in> set [''HS256'', ''HS384'', ''HS512'']"
    unfolding p ParseJWTTokenWithHS256_def
    by (subst jwt_Parse_HMAC [OF that, where k = "JWTSecret cfg"]) (simp_all split: list.split)
qed

lemma ParseJWTToken_RS256_table:
  assumes "SigningMethod cfg = ''RS256''" "LoadPublicKey cfg = Inr n"
  shows "ParseJWTToken cfg now Malformed =
           Inl (Errorf ''failed to parse JWT token: %v'' [ArgE ErrTokenMalformed])"
    and "ParseJWTToken cfg now (Compact None claims sg) =
           Inl (Errorf ''failed to parse JWT token: %v''
                  [ArgE (ErrTokenUnverifiable (Errorf ''signing method (alg) is unspecified'' []))])"
    and "GetSigningMethod alg = None \<Longrightarrow>
         ParseJWTToken cfg now (Compact (Some alg) claims sg) =
           Inl (Errorf ''failed to parse JWT token: %v''
                  [ArgE (ErrTokenUnverifiable (Errorf ''signing method (alg) is unavailable'' []))])"
    and "GetSigningMethod alg = Some m \<Longrightarrow> \<not> isSigningMethodRSA m \<Longrightarrow>
         ParseJWTToken cfg now (Compact (Some alg) claims sg) =
           Inl (Errorf ''failed to parse JWT token: %v''
                  [ArgE (ErrTokenUnverifiable (Errorf ''unexpected signing method: %v'' [ArgS alg]))])"
    and "alg \<in> set [''RS256'', ''RS384'', ''RS512''] \<Longrightarrow>
         ParseJWTToken cfg now (Compact (Some alg) claims sg) =
           (if sg \<noteq> Sig alg (RSAPrivateKey n) (Some alg) claims
            then Inl (Errorf ''failed to parse JWT token: %v''
                        [ArgE (ErrTokenSignatureInvalid ErrSignatureInvalid)])
            else case Validate now claims of
                   [] \<Rightarrow> Inr \<lparr>Method = SigningMethodRSA alg, Header_alg = alg, Claims = claims,
                              Valid = True\<rparr>
                 | e # es \<Rightarrow> Inl (Errorf ''failed to parse JWT token: %v''
                                    [ArgE (ErrTokenInvalidClaims (e # es))]))"
proof -
  have p: "ParseJWTToken cfg now t = ParseJWTTokenWithRS256 cfg now t" for t
    using assms by (simp add: ParseJWTToken_def SigningMethodHS256_def SigningMethodRS256_def)
  show "ParseJWTToken cfg now Malformed =
           Inl (Errorf ''failed to parse JWT token: %v'' [ArgE ErrTokenMalformed])"
    by (simp add: p ParseJWTTokenWithRS256_def jwt_Parse_def assms(2))
  show "ParseJWTToken cfg now (Compact None claims sg) =
           Inl (Errorf ''failed to parse JWT token: %v''
                  [ArgE (ErrTokenUnverifiable (Errorf ''signing method (alg) is unspecified'' []))])"
    by (simp add: p ParseJWTTokenWithRS256_def jwt_Parse_def assms(2))
  show "ParseJWTToken cfg now (Compact (Some alg) claims sg) =
           Inl (Errorf ''failed to parse JWT token: %v''
                  [ArgE (ErrTokenUnverifiable (Errorf ''signing method (alg) is unavailable'' []))])"
    if "GetSigningMethod alg = None"
    using that by (simp add: p ParseJWTTokenWithRS256_def jwt_Parse_def assms(2))
  show "ParseJWTToken cfg now (Compact (Some alg) claims sg) =
           Inl (Errorf ''failed to parse JWT token: %v''
                  [ArgE (ErrTokenUnverifiable (Errorf ''unexpected signing method: %v'' [ArgS alg]))])"
    if "GetSigningMethod alg = Some m" "\<not> isSigningMethodRSA m"
    using that
    by (simp add: p ParseJWTTokenWithRS256_def assms(2) jwt_Parse_keyFunc_error [where m = m])
  show "ParseJWTToken cfg now (Compact (Some alg) claims sg) =
           (if sg \<noteq> Sig alg (RSAPrivateKey n) (Some alg) claims
            then Inl (Errorf ''failed to parse JWT token: %v''
                        [ArgE (ErrTokenSignatureInvalid ErrSignatureInvalid)])
            else case Validate now claims of
                   [] \<Rightarrow> Inr \<lparr>Method = SigningMethodRSA alg, Header_alg = alg, Claims = claims,
                              Valid = True\<rparr>
                 | e # es \<Rightarrow> Inl (Errorf ''failed to parse JWT token: %v''
                                    [ArgE (ErrTokenInvalidClaims (e # es))]))"
    if "alg \<in> set [''RS256'', ''RS384'', ''RS512'']"
    unfolding p ParseJWTTokenWithRS256_def assms(2) sum.case
    by (subst jwt_Parse_RSA [OF that, where n = n]) (simp_all split: list.split)
qed

lemma JwtValidation_parse_table:
  shows "jwt_Parse now Malformed (JwtValidation_keyFunc cfg) = Inl ErrTokenMalformed"
    and "jwt_Parse now (Compact None claims sg) (JwtValidation_keyFunc cfg) =
           Inl (ErrTokenUnverifiable (Errorf ''signing method (alg) is unspecified'' []))"
    and "GetSigningMethod alg = None \<Longrightarrow>
         jwt_Parse now (Compact (Some alg) claims sg) (JwtValidation_keyFunc cfg) =
           Inl (ErrTokenUnverifiable (Errorf ''signing method (alg) is unavailable'' []))"
    and "jwt_Parse now (Compact (Some ''HS256'') claims sg) (JwtValidation_keyFunc cfg) =
           (if sg \<noteq> Sig ''HS256'' (Bytes (JWTSecret cfg)) (Some ''HS256'') claims
            then Inl (ErrTokenSignatureInvalid ErrSignatureInvalid)
            else case Validate now claims of
                   [] \<Rightarrow> Inr \<lparr>Method = SigningMethodHMAC ''HS256'', Header_alg = ''HS256'',
                              Claims = claims, Valid = True\<rparr>
                 | e # es \<Rightarrow> Inl (ErrTokenInvalidClaims (e # es)))"
    and "alg \<noteq> ''HS256'' \<Longrightarrow> GetSigningMethod alg = Some m \<Longrightarrow> LoadPublicKey cfg = Inl err \<Longrightarrow>
         jwt_Parse now (Compact (Some alg) claims sg) (JwtValidation_keyFunc cfg) =
           Inl (ErrTokenUnverifiable err)"
    and "alg \<noteq> ''HS256'' \<Longrightarrow> GetSigningMethod alg = Some m \<Longrightarrow> \<not> isSigningMethodRSA m \<Longrightarrow>
         LoadPublicKey cfg = Inr n \<Longrightarrow>
         jwt_Parse now (Compact (Some alg) claims sg) (JwtValidation_keyFunc cfg) =
           Inl (ErrTokenUnverifiable (Errorf ''unexpected signing method: %v'' [ArgS alg]))"
    and "alg \<in> set [''RS256'', ''RS384'', ''RS512''] \<Longrightarrow> LoadPublicKey cfg = Inr n \<Longrightarrow>
         jwt_Parse now (Compact (Some alg) claims sg) (JwtValidation_keyFunc cfg) =
           (if sg \<noteq> Sig alg (RSAPrivateKey n) (Some alg) claims
            then Inl (ErrTokenSignatureInvalid ErrSignatureInvalid)
            else case Validate now claims of
                   [] \<Rightarrow> Inr \<lparr>Method = SigningMethodRSA alg, Header_alg = alg, Claims = claims,
                              Valid = True\<rparr>
                 | e # es \<Rightarrow> Inl (ErrTokenInvalidClaims (e # es)))"
proof -
  show "jwt_Parse now Malformed (JwtValidation_keyFunc cfg) = Inl ErrTokenMalformed"
    by (simp add: jwt_Parse_def)
  show "jwt_Parse now (Compact None claims sg) (JwtValidation_keyFunc cfg) =
           Inl (ErrTokenUnverifiable (Errorf ''signing method (alg) is unspecified'' []))"
    by (simp add: jwt_Parse_def)
  show "jwt_Parse now (Compact (Some alg) claims sg) (JwtValidation_keyFunc cfg) =
           Inl (ErrTokenUnverifiable (Errorf ''signing method (alg) is unavailable'' []))"
    if "GetSigningMethod alg = None"
    using that by (simp add: jwt_Parse_def)
  have hs: "''HS256'' \<in> set [''HS256'', ''HS384'', ''HS512'']"
    by simp
  have g: "GetSigningMethod ''HS256'' = Some (SigningMethodHMAC ''HS256'')"
    using hs by (rule GetSigningMethod_HMAC)
  show "jwt_Parse now (Compact (Some ''HS256'') claims sg) (JwtValidation_keyFunc cfg) =
           (if sg \<noteq> Sig ''HS256'' (Bytes (JWTSecret cfg)) (Some ''HS256'') claims
            then Inl (ErrTokenSignatureInvalid ErrSignatureInvalid)
            else case Validate now claims of
                   [] \<Rightarrow> Inr \<lparr>Method = SigningMethodHMAC ''HS256'', Header_alg = ''HS256'',
                              Claims = claims, Valid = True\<rparr>
                 | e # es \<Rightarrow> Inl (ErrTokenInvalidClaims (e # es)))"
    by (rule jwt_Parse_HMAC [OF hs]) (simp add: JwtValidation_keyFunc_eq [OF g])
  show "jwt_Parse now (Compact (Some alg) claims sg) (JwtValidation_keyFunc cfg) =
           Inl (ErrTokenUnverifiable err)"
    if "alg \<noteq> ''HS256''" "GetSigningMethod alg = Some m" "LoadPublicKey cfg = Inl err"
    using that(1,3)
    by (simp add: jwt_Parse_keyFunc_error [OF that(2)] JwtValidation_keyFunc_eq [OF that(2)])
  show "jwt_Parse now (Compact (Some alg) claims sg) (JwtValidation_keyFunc cfg) =
           Inl (ErrTokenUnverifiable (Errorf ''unexpected signing method: %v'' [ArgS alg]))"
    if "alg \<noteq> ''HS256''" "GetSigningMethod alg = Some m" "\<not> isSigningMethodRSA m"
      "LoadPublicKey cfg = Inr n"
    using that(1,3,4)
    by (simp add: jwt_Parse_keyFunc_error [OF that(2)] JwtValidation_keyFunc_eq [OF that(2)])
  show "jwt_Parse now (Compact (Some alg) claims sg) (JwtValidation_keyFunc cfg) =
           (if sg \<noteq> Sig alg (RSAPrivateKey n) (Some alg) claims
            then Inl (ErrTokenSignatureInvalid ErrSignatureInvalid)
            else case Validate now claims of
                   [] \<Rightarrow> Inr \<lparr>Method = SigningMethodRSA alg, Header_alg = alg, Claims = claims,
                              Valid = True\<rparr>
                 | e # es \<Rightarrow> Inl (ErrTokenInvalidClaims (e # es)))"
    if r: "alg \<in> set [''RS256'', ''RS384'', ''RS512'']" and l: "LoadPublicKey cfg = Inr n"
  proof -
    from r have ne: "alg \<noteq> ''HS256''" by auto
    show ?thesis
      by (rule jwt_Parse_RSA [OF r])
         (simp add: JwtValidation_keyFunc_eq [OF GetSigningMethod_RSA [OF r]] ne l)
  qed
qed

lemma JwtValidation_handler:
  assumes "tokenStr \<noteq> []"
  shows "jwt_Parse now (decode tokenStr) (JwtValidation_keyFunc cfg) = Inl err \<Longrightarrow>
         JwtValidation cfg decode now (TokenType cfg @ '' '' @ tokenStr) =
           Ok (Abort StatusUnauthorized ''Invalid token'' (DetailErr err))"
    and "jwt_Parse now (decode tokenStr) (JwtValidation_keyFunc cfg) = Inr token \<Longrightarrow>
         map_of (Claims token) ''username'' = Some (JStr username) \<Longrightarrow>
         map_of (Claims token) ''email'' = Some (JStr email) \<Longrightarrow>
         JwtValidation cfg decode now (TokenType cfg @ '' '' @ tokenStr) =
           Ok (Next (Some \<lparr>meta_UserID =
                             (case GetInt64Claim (Claims token) ''userid'' of Inl err \<Rightarrow> 0 | Inr v \<Rightarrow> v),
                           meta_Username = username,
                           meta_Email = email,
                           meta_Roles = GetStringSliceClaim (Claims token) ''roles''\<rparr>))"
proof -
  show "JwtValidation cfg decode now (TokenType cfg @ '' '' @ tokenStr) =
           Ok (Abort StatusUnauthorized ''Invalid token'' (DetailErr err))"
    if "jwt_Parse now (decode tokenStr) (JwtValidation_keyFunc cfg) = Inl err"
    unfolding JwtValidation_bearer [OF assms] that by simp
  show "JwtValidation cfg decode now (TokenType cfg @ '' '' @ tokenStr) =
           Ok (Next (Some \<lparr>meta_UserID =
                             (case GetInt64Claim (Claims token) ''userid'' of Inl err \<Rightarrow> 0 | Inr v \<Rightarrow> v),
                           meta_Username = username,
                           meta_Email = email,
                           meta_Roles = GetStringSliceClaim (Claims token) ''roles''\<rparr>))"
    if p: "jwt_Parse now (decode tokenStr) (JwtValidation_keyFunc cfg) = Inr token"
      and u: "map_of (Claims token) ''username'' = Some (JStr username)"
      and e: "map_of (Claims token) ''email'' = Some (JStr email)"
    unfolding JwtValidation_bearer [OF assms] p
    using jwt_Parse_Valid [OF p] u e by simp
qed


text \<open>What is accepted was signed for its own header with the key of that family.\<close>

lemma ParseJWTToken_HS256_only:
  assumes "SigningMethod cfg = ''HS256''" "ParseJWTToken cfg now tokenStr = Inr token"
  shows "Header_alg token \<in> set [''HS256'', ''HS384'', ''HS512''] \<and>
         Method token = SigningMethodHMAC (Header_alg token) \<and>
         tokenStr = Compact (Some (Header_alg token)) (Claims token)
                      (Sig (Header_alg token) (Bytes (JWTSecret cfg)) (Some (Header_alg token))
                         (Claims token))"
proof (cases tokenStr)
  case Malformed
  with assms ParseJWTToken_HS256_table(1) [OF assms(1), of now] show ?thesis by simp
next
  case (Compact hdr claims sg)
  show ?thesis
  proof (cases hdr)
    case None
    with assms Compact ParseJWTToken_HS256_table(2) [OF assms(1), of now claims sg]
    show ?thesis by simp
  next
    case (Some alg)
    show ?thesis
    proof (cases "GetSigningMethod alg")
      case None
      with assms Compact Some ParseJWTToken_HS256_table(3) [OF assms(1), of alg now claims sg]
      show ?thesis by simp
    next
      case (Some m)
      then show ?thesis
      proof (cases rule: GetSigningMethod_cases)
        case 1
        from ParseJWTToken_HS256_table(5) [OF assms(1) 1(1), of now claims sg] assms(2) Compact \<open>hdr = Some alg\<close>
        have "sg = Sig alg (Bytes (JWTSecret cfg)) (Some alg) claims \<and>
              token = \<lparr>Method = SigningMethodHMAC alg, Header_alg = alg, Claims = claims, Valid = True\<rparr>"
          by (auto split: if_splits list.splits)
        with 1(1) Compact \<open>hdr = Some alg\<close> show ?thesis by simp
      next
        case 2
        with ParseJWTToken_HS256_table(4) [OF assms(1) Some, of now claims sg] assms(2) Compact \<open>hdr = Some alg\<close>
        show ?thesis by simp
      next
        case 3
        with ParseJWTToken_HS256_table(4) [OF assms(1) Some, of now claims sg] assms(2) Compact \<open>hdr = Some alg\<close>
        show ?thesis by simp
      qed
    qed
  qed
qed

lemma ParseJWTToken_RS256_only:
  assumes "SigningMethod cfg = ''RS256''" "ParseJWTToken cfg now tokenStr = Inr token"
  shows "\<exists>n. LoadPublicKey cfg = Inr n \<and>
         Header_alg token \<in> set [''RS256'', ''RS384'', ''RS512''] \<and>
         Method token = SigningMethodRSA (Header_alg token) \<and>
         tokenStr = Compact (Some (Header_alg token)) (Claims token)
                      (Sig (Header_alg token) (RSAPrivateKey n) (Some (Header_alg token))
                         (Claims token))"
proof (cases "LoadPublicKey cfg")
  case (Inl err)
  with assms show ?thesis
    by (simp add: ParseJWTToken_def ParseJWTTokenWithRS256_def SigningMethodHS256_def
        SigningMethodRS256_def)
next
  case (Inr n)
  note t = ParseJWTToken_RS256_table [OF assms(1) Inr]
  have "Header_alg token \<in> set [''RS256'', ''RS384'', ''RS512''] \<and>
         Method token = SigningMethodRSA (Header_alg token) \<and>
         tokenStr = Compact (Some (Header_alg token)) (Claims token)
                      (Sig (Header_alg token) (RSAPrivateKey n) (Some (Header_alg token))
                         (Claims token))"
  proof (cases tokenStr)
    case Malformed
    with assms t(1) [of now] show ?thesis by simp
  next
    case (Compact hdr claims sg)
    show ?thesis
    proof (cases hdr)
      case None
      with assms Compact t(2) [of now claims sg] show ?thesis by simp
    next
      case (Some alg)
      show ?thesis
      proof (cases "GetSigningMethod alg")
        case None
        with assms Compact Some t(3) [of alg now claims sg] show ?thesis by simp
      next
        case (Some m)
        then show ?thesis
        proof (cases rule: GetSigningMethod_cases)
          case 1
          then have "\<not> isSigningMethodRSA m" by simp
          with t(4) [OF Some, of now claims sg] assms(2) Compact \<open>hdr = Some alg\<close>
          show ?thesis by simp
        next
          case 2
          from t(5) [OF 2(2), of now claims sg] assms(2) Compact \<open>hdr = Some alg\<close>
          have "sg = Sig alg (RSAPrivateKey n) (Some alg) claims \<and>
                token = \<lparr>Method = SigningMethodRSA alg, Header_alg = alg, Claims = claims, Valid = True\<rparr>"
            by (auto split: if_splits list.splits)
          with 2(2) Compact \<open>hdr = Some alg\<close> show ?thesis by simp
        next
          case 3
          with t(4) [OF Some, of now claims sg] assms(2) Compact \<open>hdr = Some alg\<close>
          show ?thesis by simp
        qed
      qed
    qed
  qed
  with Inr show ?thesis by blast
qed

lemma JwtValidation_parse_only:
  assumes "jwt_Parse now tokenStr (JwtValidation_keyFunc cfg) = Inr token"
  shows "Header_alg token = ''HS256'' \<and>
         tokenStr = Compact (Some ''HS256'') (Claims token)
                      (Sig ''HS256'' (Bytes (JWTSecret cfg)) (Some ''HS256'') (Claims token))
       \<or> Header_alg token \<in> set [''RS256'', ''RS384'', ''RS512''] \<and>
         (\<exists>n. LoadPublicKey cfg = Inr n \<and>
              tokenStr = Compact (Some (Header_alg token)) (Claims token)
                           (Sig (Header_alg token) (RSAPrivateKey n) (Some (Header_alg token))
                              (Claims token)))"
proof (cases tokenStr)
  case Malformed
  with assms JwtValidation_parse_table(1) [of now cfg] show ?thesis by simp
next
  case (Compact hdr claims sg)
  show ?thesis
  proof (cases hdr)
    case None
    with assms Compact JwtValidation_parse_table(2) [of now claims sg cfg] show ?thesis by simp
  next
    case (Some alg)
    show ?thesis
    proof (cases "alg = ''HS256''")
      case True
      from JwtValidation_parse_table(4) [of now claims sg cfg] assms Compact Some True
      have "sg = Sig ''HS256'' (Bytes (JWTSecret cfg)) (Some ''HS256'') claims \<and>
            token = \<lparr>Method = SigningMethodHMAC ''HS256'', Header_alg = ''HS256'', Claims = claims,
                     Valid = True\<rparr>"
        by (auto split: if_splits list.splits)
      with Compact Some True show ?thesis by simp
    next
      case ne: False
      show ?thesis
      proof (cases "GetSigningMethod alg")
        case None
        with assms Compact Some JwtValidation_parse_table(3) [of alg now claims sg cfg]
        show ?thesis by simp
      next
        case sm: (Some m)
        show ?thesis
        proof (cases "LoadPublicKey cfg")
          case (Inl err)
          with assms Compact Some JwtValidation_parse_table(5) [OF ne sm, of cfg err now claims sg]
          show ?thesis by simp
        next
          case (Inr n)
          show ?thesis
          proof (cases "alg \<in> set [''RS256'', ''RS384'', ''RS512'']")
            case True
            from JwtValidation_parse_table(7) [OF True Inr, of now claims sg] assms Compact Some
            have "sg = Sig alg (RSAPrivateKey n) (Some alg) claims \<and>
                  token = \<lparr>Method = SigningMethodRSA alg, Header_alg = alg, Claims = claims,
                           Valid = True\<rparr>"
              by (auto split: if_splits list.splits)
            with Compact Some True Inr show ?thesis by simp
          next
            case False
            from sm False have "\<not> isSigningMethodRSA m"
              by (cases rule: GetSigningMethod_cases) simp_all
            with assms Compact Some
              JwtValidation_parse_table(6) [OF ne sm _ Inr, of now claims sg]
            show ?thesis by simp
          qed
        qed
      qed
    qed
  qed
qed

text \<open>
  Claim C3, as amended.  \<open>ParseJWTToken\<close> checks the family of the header's
  method, not the configured algorithm.  Under the configuration HS256 it accepts a
  token only if the header names HS256, HS384 or HS512 and the signature was made
  for that header with the shared secret; under RS256 only if the header names
  RS256, RS384 or RS512 and the signature verifies with the public key.  Every other
  token is rejected: as malformed when it does not decode, with "signing method (alg)
  is unspecified" when the header has no \<open>alg\<close>, with "signing method (alg) is
  unavailable" when it names no registered method, with "unexpected signing method"
  when it names a registered method of another family, with an invalid signature
  or invalid claims otherwise, and under RS256 with the error of \<open>LoadPublicKey\<close>
  when the key does not load.  Under any other configured algorithm every token is
  rejected as "unsupported signing method".

  The middleware \<open>JwtValidation\<close> does not read the configured algorithm.  Its key
  function returns the shared secret for the header HS256 and only for it, and the
  public key for the headers RS256, RS384 and RS512; for every other registered
  method it returns the error of \<open>LoadPublicKey\<close> or "unexpected signing method".
  So \<open>jwt.Parse\<close> in the middleware accepts a token only if it is an HS256 token
  signed with the secret or an RSA token that verifies with the public key, whatever
  algorithm is configured; the handler answers 401 with the error of \<open>jwt.Parse\<close>,
  and hands on the identity of an accepted token.
\<close>

theorem algorithm_checks:
  "(SigningMethod cfg = ''HS256'' \<longrightarrow>
      (ParseJWTToken cfg now tok = Inr token \<longrightarrow>
         Header_alg token \<in> set [''HS256'', ''HS384'', ''HS512''] \<and>
         Method token = SigningMethodHMAC (Header_alg token) \<and>
         tok = Compact (Some (Header_alg token)) (Claims token)
                 (Sig (Header_alg token) (Bytes (JWTSecret cfg)) (Some (Header_alg token))
                    (Claims token)))
    \<and> ParseJWTToken cfg now Malformed =
         Inl (Errorf ''failed to parse JWT token: %v'' [ArgE ErrTokenMalformed])
    \<and> ParseJWTToken cfg now (Compact None claims sg) =
         Inl (Errorf ''failed to parse JWT token: %v''
                [ArgE (ErrTokenUnverifiable (Errorf ''signing method (alg) is unspecified'' []))])
    \<and> (GetSigningMethod alg = None \<longrightarrow>
         ParseJWTToken cfg now (Compact (Some alg) claims sg) =
           Inl (Errorf ''failed to parse JWT token: %v''
                  [ArgE (ErrTokenUnverifiable (Errorf ''signing method (alg) is unavailable'' []))]))
    \<and> (GetSigningMethod alg = Some m \<and> \<not> isSigningMethodHMAC m \<longrightarrow>
         ParseJWTToken cfg now (Compact (Some alg) claims sg) =
           Inl (Errorf ''failed to parse JWT token: %v''
                  [ArgE (ErrTokenUnverifiable (Errorf ''unexpected signing method: %v'' [ArgS alg]))]))
    \<and> (alg \<in> set [''HS256'', ''HS384'', ''HS512''] \<longrightarrow>
         ParseJWTToken cfg now (Compact (Some alg) claims sg) =
           (if sg \<noteq> Sig alg (Bytes (JWTSecret cfg)) (Some alg) claims
            then Inl (Errorf ''failed to parse JWT token: %v''
                        [ArgE (ErrTokenSignatureInvalid ErrSignatureInvalid)])
            else case Validate now claims of
                   [] \<Rightarrow> Inr \<lparr>Method = SigningMethodHMAC alg, Header_alg = alg, Claims = claims,
                              Valid = True\<rparr>
                 | e # es \<Rightarrow> Inl (Errorf ''failed to parse JWT token: %v''
                                    [ArgE (ErrTokenInvalidClaims (e # es))]))))
   \<and> (SigningMethod cfg = ''RS256'' \<longrightarrow>
      (ParseJWTToken cfg now tok = Inr token \<longrightarrow>
         (\<exists>publicKey. LoadPublicKey cfg = Inr publicKey \<and>
            Header_alg token \<in> set [''RS256'', ''RS384'', ''RS512''] \<and>
            Method token = SigningMethodRSA (Header_alg token) \<and>
            tok = Compact (Some (Header_alg token)) (Claims token)
                    (Sig (Header_alg token) (RSAPrivateKey publicKey) (Some (Header_alg token))
                       (Claims token))))
    \<and> (LoadPublicKey cfg = Inl err \<longrightarrow>
         ParseJWTToken cfg now tok = Inl (Errorf ''failed to load public key: %v'' [ArgE err]))
    \<and> (LoadPublicKey cfg = Inr n \<longrightarrow>
         ParseJWTToken cfg now Malformed =
           Inl (Errorf ''failed to parse JWT token: %v'' [ArgE ErrTokenMalformed])
       \<and> ParseJWTToken cfg now (Compact None claims sg) =
           Inl (Errorf ''failed to parse JWT token: %v''
                  [ArgE (ErrTokenUnverifiable (Errorf ''signing method (alg) is unspecified'' []))])
       \<and> (GetSigningMethod alg = None \<longrightarrow>
           ParseJWTToken cfg now (Compact (Some alg) claims sg) =
             Inl (Errorf ''failed to parse JWT token: %v''
                    [ArgE (ErrTokenUnverifiable (Errorf ''signing method (alg) is unavailable'' []))]))
       \<and> (GetSigningMethod alg = Some m \<and> \<not> isSigningMethodRSA m \<longrightarrow>
           ParseJWTToken cfg now (Compact (Some alg) claims sg) =
             Inl (Errorf ''failed to parse JWT token: %v''
                    [ArgE (ErrTokenUnverifiable (Errorf ''unexpected signing method: %v'' [ArgS alg]))]))
       \<and> (alg \<in> set [''RS256'', ''RS384'', ''RS512''] \<longrightarrow>
           ParseJWTToken cfg now (Compact (Some alg) claims sg) =
             (if sg \<noteq> Sig alg (RSAPrivateKey n) (Some alg) claims
              then Inl (Errorf ''failed to parse JWT token: %v''
                          [ArgE (ErrTokenSignatureInvalid ErrSignatureInvalid)])
              else case Validate now claims of
                     [] \<Rightarrow> Inr \<lparr>Method = SigningMethodRSA alg, Header_alg = alg, Claims = claims,
                                Valid = True\<rparr>
                   | e # es \<Rightarrow> Inl (Errorf ''failed to parse JWT token: %v''
                                      [ArgE (ErrTokenInvalidClaims (e # es))])))))
   \<and> (SigningMethod cfg \<noteq> ''HS256'' \<and> SigningMethod cfg \<noteq> ''RS256'' \<longrightarrow>
        ParseJWTToken cfg now tok =
          Inl (Errorf ''unsupported signing method: %s'' [ArgS (SigningMethod cfg)]))
   \<and> ((jwt_Parse now tok (JwtValidation_keyFunc cfg) = Inr token \<longrightarrow>
        Header_alg token = ''HS256'' \<and>
        tok = Compact (Some ''HS256'') (Claims token)
                (Sig ''HS256'' (Bytes (JWTSecret cfg)) (Some ''HS256'') (Claims token))
      \<or> Header_alg token \<in> set [''RS256'', ''RS384'', ''RS512''] \<and>
        (\<exists>publicKey. LoadPublicKey cfg = Inr publicKey \<and>
           tok = Compact (Some (Header_alg token)) (Claims token)
                   (Sig (Header_alg token) (RSAPrivateKey publicKey) (Some (Header_alg token))
                      (Claims token))))
   \<and> jwt_Parse now Malformed (JwtValidation_keyFunc cfg) = Inl ErrTokenMalformed
   \<and> jwt_Parse now (Compact None claims sg) (JwtValidation_keyFunc cfg) =
        Inl (ErrTokenUnverifiable (Errorf ''signing method (alg) is unspecified'' []))
   \<and> (GetSigningMethod alg = None \<longrightarrow>
        jwt_Parse now (Compact (Some alg) claims sg) (JwtValidation_keyFunc cfg) =
          Inl (ErrTokenUnverifiable (Errorf ''signing method (alg) is unavailable'' [])))
   \<and> jwt_Parse now (Compact (Some ''HS256'') claims sg) (JwtValidation_keyFunc cfg) =
        (if sg \<noteq> Sig ''HS256'' (Bytes (JWTSecret cfg)) (Some ''HS256'') claims
         then Inl (ErrTokenSignatureInvalid ErrSignatureInvalid)
         else case Validate now claims of
                [] \<Rightarrow> Inr \<lparr>Method = SigningMethodHMAC ''HS256'', Header_alg = ''HS256'',
                           Claims = claims, Valid = True\<rparr>
              | e # es \<Rightarrow> Inl (ErrTokenInvalidClaims (e # es)))
   \<and> (alg \<noteq> ''HS256'' \<and> GetSigningMethod alg = Some m \<and> LoadPublicKey cfg = Inl err \<longrightarrow>
        jwt_Parse now (Compact (Some alg) claims sg) (JwtValidation_keyFunc cfg) =
          Inl (ErrTokenUnverifiable err))
   \<and> (alg \<noteq> ''HS256'' \<and> GetSigningMethod alg = Some m \<and> \<not> isSigningMethodRSA m \<and>
      LoadPublicKey cfg = Inr n \<longrightarrow>
        jwt_Parse now (Compact (Some alg) claims sg) (JwtValidation_keyFunc cfg) =
          Inl (ErrTokenUnverifiable (Errorf ''unexpected signing method: %v'' [ArgS alg])))
   \<and> (alg \<in> set [''RS256'', ''RS384'', ''RS512''] \<and> LoadPublicKey cfg = Inr n \<longrightarrow>
        jwt_Parse now (Compact (Some alg) claims sg) (JwtValidation_keyFunc cfg) =
          (if sg \<noteq> Sig alg (RSAPrivateKey n) (Some alg) claims
           then Inl (ErrTokenSignatureInvalid ErrSignatureInvalid)
           else case Validate now claims of
                  [] \<Rightarrow> Inr \<lparr>Method = SigningMethodRSA alg, Header_alg = alg, Claims = claims,
                             Valid = True\<rparr>
                | e # es \<Rightarrow> Inl (ErrTokenInvalidClaims (e # es)))))
   \<and> ((tokenStr \<noteq> [] \<and> jwt_Parse now (decode tokenStr) (JwtValidation_keyFunc cfg) = Inl err \<longrightarrow>
        JwtValidation cfg decode now (TokenType cfg @ '' '' @ tokenStr) =
          Ok (Abort StatusUnauthorized ''Invalid token'' (DetailErr err)))
   \<and> (tokenStr \<noteq> [] \<and> jwt_Parse now (decode tokenStr) (JwtValidation_keyFunc cfg) = Inr token \<and>
      map_of (Claims token) ''username'' = Some (JStr username) \<and>
      map_of (Claims token) ''email'' = Some (JStr email) \<longrightarrow>
        JwtValidation cfg decode now (TokenType cfg @ '' '' @ tokenStr) =
          Ok (Next (Some \<lparr>meta_UserID =
                            (case GetInt64Claim (Claims token) ''userid'' of Inl err \<Rightarrow> 0 | Inr v \<Rightarrow> v),
                          meta_Username = username,
                          meta_Email = email,
                          meta_Roles = GetStringSliceClaim (Claims token) ''roles''\<rparr>))))
   \<and> JwtValidation (cfg\<lparr>SigningMethod := configured\<rparr>) decode now authHeader =
       JwtValidation cfg decode now authHeader"
proof -
  have "JwtValidation_keyFunc (cfg\<lparr>SigningMethod := configured\<rparr>) = JwtValidation_keyFunc cfg"
    by (rule ext) (simp add: JwtValidation_keyFunc_def)
  then have indep: "JwtValidation (cfg\<lparr>SigningMethod := configured\<rparr>) decode now authHeader =
       JwtValidation cfg decode now authHeader"
    by (simp add: JwtValidation_def Let_def cong: if_cong)
  show ?thesis
    apply (intro conjI)
    subgoal
      apply (rule impI)
      apply (intro conjI)
      subgoal using ParseJWTToken_HS256_only by blast
      subgoal by (rule ParseJWTToken_HS256_table(1))
      subgoal by (rule ParseJWTToken_HS256_table(2))
      subgoal using ParseJWTToken_HS256_table(3) by blast
      subgoal using ParseJWTToken_HS256_table(4) by blast
      subgoal using ParseJWTToken_HS256_table(5) by blast
      done
    subgoal
      apply (rule impI)
      apply (intro conjI)
      subgoal using ParseJWTToken_RS256_only by blast
      subgoal
        by (simp add: ParseJWTToken_def ParseJWTTokenWithRS256_def SigningMethodHS256_def
            SigningMethodRS256_def)
      subgoal
        apply (rule impI)
        apply (intro conjI)
        subgoal by (rule ParseJWTToken_RS256_table(1))
        subgoal by (rule ParseJWTToken_RS256_table(2))
        subgoal using ParseJWTToken_RS256_table(3) by blast
        subgoal using ParseJWTToken_RS256_table(4) by blast
        subgoal using ParseJWTToken_RS256_table(5) by blast
        done
      done
    subgoal by (simp add: ParseJWTToken_def SigningMethodHS256_def SigningMethodRS256_def)
    subgoal using JwtValidation_parse_only by blast
    subgoal by (rule JwtValidation_parse_table(1))
    subgoal by (rule JwtValidation_parse_table(2))
    subgoal using JwtValidation_parse_table(3) by blast
    subgoal by (rule JwtValidation_parse_table(4))
    subgoal using JwtValidation_parse_table(5) by blast
    subgoal using JwtValidation_parse_table(6) by blast
    subgoal using JwtValidation_parse_table(7) by blast
    subgoal using JwtValidation_handler(1) by blast
    subgoal using JwtValidation_handler(2) by blast
    subgoal by (rule indep)
    done
qed

theorem algorithm_checks_witness:
  "ParseJWTToken demoConfig demoNow
     (Compact (Some ''RS256'') demoForeignClaims
        (Sig ''RS256'' (RSAPrivateKey 1) (Some ''RS256'') demoForeignClaims)) =
     Inl (Errorf ''failed to parse JWT token: %v''
            [ArgE (ErrTokenUnverifiable (Errorf ''unexpected signing method: %v'' [ArgS ''RS256'']))])
   \<and> ParseJWTToken demoConfig demoNow (Compact (Some ''XX256'') demoForeignClaims Garbage) =
     Inl (Errorf ''failed to parse JWT token: %v''
            [ArgE (ErrTokenUnverifiable (Errorf ''signing method (alg) is unavailable'' []))])
   \<and> ParseJWTToken demoConfig demoNow (Compact None demoForeignClaims Garbage) =
     Inl (Errorf ''failed to parse JWT token: %v''
            [ArgE (ErrTokenUnverifiable (Errorf ''signing method (alg) is unspecified'' []))])
   \<and> ParseJWTToken demoConfig demoNow demoHS384Token =
     Inr \<lparr>Method = SigningMethodHMAC ''HS384'', Header_alg = ''HS384'', Claims = demoForeignClaims,
          Valid = True\<rparr>
   \<and> ParseJWTToken (demoConfig\<lparr>SigningMethod := ''RS256''\<rparr>) demoNow demoForeignToken =
     Inl (Errorf ''failed to parse JWT token: %v''
            [ArgE (ErrTokenUnverifiable (Errorf ''unexpected signing method: %v'' [ArgS ''HS256'']))])
   \<and> ParseJWTToken (demoConfig\<lparr>SigningMethod := ''RS256''\<rparr>) demoNow
       (Compact (Some ''RS256'') demoForeignClaims
          (Sig ''RS256'' (RSAPrivateKey 1) (Some ''RS256'') demoForeignClaims)) =
     Inr \<lparr>Method = SigningMethodRSA ''RS256'', Header_alg = ''RS256'', Claims = demoForeignClaims,
          Valid = True\<rparr>
   \<and> ParseJWTToken (demoConfig\<lparr>LoadPublicKey := Inl (ErrKeyFile ''public.pem''), SigningMethod := ''RS256''\<rparr>)
       demoNow demoForeignToken =
     Inl (Errorf ''failed to load public key: %v'' [ArgE (ErrKeyFile ''public.pem'')])
   \<and> ParseJWTToken (demoConfig\<lparr>SigningMethod := ''none''\<rparr>) demoNow demoForeignToken =
     Inl (Errorf ''unsupported signing method: %s'' [ArgS ''none''])
   \<and> JwtValidation (demoConfig\<lparr>SigningMethod := ''RS256''\<rparr>) (\<lambda>s. demoForeignToken) demoNow
       ''Bearer eyJhbGciOiJIUzI1NiJ9.e30.c2ln'' =
     Ok (Next (Some \<lparr>meta_UserID = 1, meta_Username = ''admin'', meta_Email = ''admin@mygmail.com'',
                     meta_Roles = [''ROLE_ADMIN'']\<rparr>))
   \<and> JwtValidation demoConfig (\<lambda>s. demoHS384Token) demoNow ''Bearer eyJhbGciOiJIUzM4NCJ9.e30.c2ln'' =
     Ok (Abort StatusUnauthorized ''Invalid token''
           (DetailErr (ErrTokenUnverifiable (Errorf ''unexpected signing method: %v'' [ArgS ''HS384'']))))
   \<and> JwtValidation (demoConfig\<lparr>LoadPublicKey := Inl (ErrKeyFile ''public.pem'')\<rparr>)
       (\<lambda>s. Compact (Some ''RS256'') demoForeignClaims
               (Sig ''RS256'' (RSAPrivateKey 1) (Some ''RS256'') demoForeignClaims)) demoNow
       ''Bearer eyJhbGciOiJSUzI1NiJ9.e30.c2ln'' =
     Ok (Abort StatusUnauthorized ''Invalid token''
           (DetailErr (ErrTokenUnverifiable (ErrKeyFile ''public.pem''))))"
proof -
  define rsToken where "rsToken =
    Compact (Some ''RS256'') demoForeignClaims
      (Sig ''RS256'' (RSAPrivateKey 1) (Some ''RS256'') demoForeignClaims)"
  define rsConfig where "rsConfig = demoConfig\<lparr>SigningMethod := ''RS256''\<rparr>"
  define noKeyConfig where "noKeyConfig = demoConfig\<lparr>LoadPublicKey := Inl (ErrKeyFile ''public.pem'')\<rparr>"
  have hs: "SigningMethod demoConfig = ''HS256''"
    and rs: "SigningMethod rsConfig = ''RS256''"
    and rsn: "SigningMethod (noKeyConfig\<lparr>SigningMethod := ''RS256''\<rparr>) = ''RS256''"
    and none: "SigningMethod (demoConfig\<lparr>SigningMethod := ''none''\<rparr>) \<noteq> ''HS256'' \<and>
               SigningMethod (demoConfig\<lparr>SigningMethod := ''none''\<rparr>) \<noteq> ''RS256''"
    and key: "LoadPublicKey rsConfig = Inr 1" "LoadPublicKey demoConfig = Inr 1"
    and nokey: "LoadPublicKey (noKeyConfig\<lparr>SigningMethod := ''RS256''\<rparr>) = Inl (ErrKeyFile ''public.pem'')"
      "LoadPublicKey noKeyConfig = Inl (ErrKeyFile ''public.pem'')"
    and secret: "JWTSecret rsConfig = JWTSecret demoConfig"
    and bearer: "TokenType demoConfig = ''Bearer''" "TokenType rsConfig = ''Bearer''"
      "TokenType noKeyConfig = ''Bearer''"
    by (simp_all add: demoConfig_def rsConfig_def noKeyConfig_def)
  have g: "GetSigningMethod ''RS256'' = Some (SigningMethodRSA ''RS256'')"
    "GetSigningMethod ''HS256'' = Some (SigningMethodHMAC ''HS256'')"
    "GetSigningMethod ''HS384'' = Some (SigningMethodHMAC ''HS384'')"
    "GetSigningMethod ''XX256'' = None"
    by (simp_all add: GetSigningMethod_def)
  have fam: "''HS384'' \<in> set [''HS256'', ''HS384'', ''HS512'']"
    "''RS256'' \<in> set [''RS256'', ''RS384'', ''RS512'']"
    "''RS256'' \<noteq> ''HS256''" "''HS384'' \<noteq> ''HS256''"
    "\<not> isSigningMethodHMAC (SigningMethodRSA ''RS256'')"
    "\<not> isSigningMethodRSA (SigningMethodHMAC ''HS256'')"
    "\<not> isSigningMethodRSA (SigningMethodHMAC ''HS384'')"
    by simp_all
  have v: "Validate demoNow demoForeignClaims = []"
    by (simp add: demoForeignClaims_def demoNow_def Validate_def verifyExpiresAt_def
        verifyNotBefore_def parseNumericDate_def Time_Before_def time_Unix_def int64_of_float64_def)
  have ident: "map_of demoForeignClaims ''username'' = Some (JStr ''admin'')"
    "map_of demoForeignClaims ''email'' = Some (JStr ''admin@mygmail.com'')"
    "(case GetInt64Claim demoForeignClaims ''userid'' of Inl err \<Rightarrow> 0 | Inr v \<Rightarrow> v) = 1"
    "GetStringSliceClaim demoForeignClaims ''roles'' = [''ROLE_ADMIN'']"
    by (simp_all add: demoForeignClaims_def GetInt64Claim_def GetStringSliceClaim_def
        int64_of_float64_def)
  note a = algorithm_checks
    [where cfg = demoConfig and now = demoNow and alg = "''RS256''"
       and m = "SigningMethodRSA ''RS256''" and claims = demoForeignClaims
       and sg = "Sig ''RS256'' (RSAPrivateKey 1) (Some ''RS256'') demoForeignClaims"]
  from a hs g(1) fam(5) have 1: "ParseJWTToken demoConfig demoNow rsToken =
     Inl (Errorf ''failed to parse JWT token: %v''
            [ArgE (ErrTokenUnverifiable (Errorf ''unexpected signing method: %v'' [ArgS ''RS256'']))])"
    unfolding rsToken_def by blast
  note b = algorithm_checks
    [where cfg = demoConfig and now = demoNow and alg = "''XX256''" and claims = demoForeignClaims
       and sg = Garbage]
  from b hs g(4) have 2: "ParseJWTToken demoConfig demoNow (Compact (Some ''XX256'') demoForeignClaims Garbage) =
     Inl (Errorf ''failed to parse JWT token: %v''
            [ArgE (ErrTokenUnverifiable (Errorf ''signing method (alg) is unavailable'' []))])"
    by blast
  from b hs have 3: "ParseJWTToken demoConfig demoNow (Compact None demoForeignClaims Garbage) =
     Inl (Errorf ''failed to parse JWT token: %v''
            [ArgE (ErrTokenUnverifiable (Errorf ''signing method (alg) is unspecified'' []))])"
    by blast
  note c = algorithm_checks
    [where cfg = demoConfig and now = demoNow and alg = "''HS384''" and claims = demoForeignClaims
       and sg = "Sig ''HS384'' (Bytes (JWTSecret demoConfig)) (Some ''HS384'') demoForeignClaims"]
  from c hs fam(1) have "ParseJWTToken demoConfig demoNow demoHS384Token =
      (if Sig ''HS384'' (Bytes (JWTSecret demoConfig)) (Some ''HS384'') demoForeignClaims \<noteq>
          Sig ''HS384'' (Bytes (JWTSecret demoConfig)) (Some ''HS384'') demoForeignClaims
       then Inl (Errorf ''failed to parse JWT token: %v''
                   [ArgE (ErrTokenSignatureInvalid ErrSignatureInvalid)])
       else case Validate demoNow demoForeignClaims of
              [] \<Rightarrow> Inr \<lparr>Method = SigningMethodHMAC ''HS384'', Header_alg = ''HS384'',
                         Claims = demoForeignClaims, Valid = True\<rparr>
            | e # es \<Rightarrow> Inl (Errorf ''failed to parse JWT token: %v''
                               [ArgE (ErrTokenInvalidClaims (e # es))]))"
    unfolding demoHS384Token_def by blast
  then have 4: "ParseJWTToken demoConfig demoNow demoHS384Token =
     Inr \<lparr>Method = SigningMethodHMAC ''HS384'', Header_alg = ''HS384'', Claims = demoForeignClaims,
          Valid = True\<rparr>"
    by (simp add: v)
  note d = algorithm_checks
    [where cfg = rsConfig and now = demoNow and alg = "''HS256''"
       and m = "SigningMethodHMAC ''HS256''" and claims = demoForeignClaims and n = 1
       and sg = "Sig ''HS256'' (Bytes (JWTSecret demoConfig)) (Some ''HS256'') demoForeignClaims"]
  from d rs key(1) g(2) fam(6) have 5: "ParseJWTToken rsConfig demoNow demoForeignToken =
     Inl (Errorf ''failed to parse JWT token: %v''
            [ArgE (ErrTokenUnverifiable (Errorf ''unexpected signing method: %v'' [ArgS ''HS256'']))])"
    unfolding demoForeignToken_def by blast
  note e = algorithm_checks
    [where cfg = rsConfig and now = demoNow and alg = "''RS256''" and claims = demoForeignClaims
       and n = 1 and sg = "Sig ''RS256'' (RSAPrivateKey 1) (Some ''RS256'') demoForeignClaims"]
  from e rs key(1) fam(2) have "ParseJWTToken rsConfig demoNow rsToken =
      (if Sig ''RS256'' (RSAPrivateKey 1) (Some ''RS256'') demoForeignClaims \<noteq>
          Sig ''RS256'' (RSAPrivateKey 1) (Some ''RS256'') demoForeignClaims
       then Inl (Errorf ''failed to parse JWT token: %v''
                   [ArgE (ErrTokenSignatureInvalid ErrSignatureInvalid)])
       else case Validate demoNow demoForeignClaims of
              [] \<Rightarrow> Inr \<lparr>Method = SigningMethodRSA ''RS256'', Header_alg = ''RS256'',
                         Claims = demoForeignClaims, Valid = True\<rparr>
            | e # es \<Rightarrow> Inl (Errorf ''failed to parse JWT token: %v''
                               [ArgE (ErrTokenInvalidClaims (e # es))]))"
    unfolding rsToken_def by blast
  then have 6: "ParseJWTToken rsConfig demoNow rsToken =
     Inr \<lparr>Method = SigningMethodRSA ''RS256'', Header_alg = ''RS256'', Claims = demoForeignClaims,
          Valid = True\<rparr>"
    by (simp add: v)
  note f = algorithm_checks
    [where cfg = "noKeyConfig\<lparr>SigningMethod := ''RS256''\<rparr>" and now = demoNow
       and tok = demoForeignToken and err = "ErrKeyFile ''public.pem''"]
  from f rsn nokey(1) have 7: "ParseJWTToken (noKeyConfig\<lparr>SigningMethod := ''RS256''\<rparr>) demoNow
       demoForeignToken =
     Inl (Errorf ''failed to load public key: %v'' [ArgE (ErrKeyFile ''public.pem'')])"
    by blast
  note h = algorithm_checks
    [where cfg = "demoConfig\<lparr>SigningMethod := ''none''\<rparr>" and now = demoNow
       and tok = demoForeignToken]
  from h none have "ParseJWTToken (demoConfig\<lparr>SigningMethod := ''none''\<rparr>) demoNow demoForeignToken =
     Inl (Errorf ''unsupported signing method: %s''
            [ArgS (SigningMethod (demoConfig\<lparr>SigningMethod := ''none''\<rparr>))])"
    by blast
  then have 8: "ParseJWTToken (demoConfig\<lparr>SigningMethod := ''none''\<rparr>) demoNow demoForeignToken =
     Inl (Errorf ''unsupported signing method: %s'' [ArgS ''none''])"
    by simp
  define accepted where "accepted =
     \<lparr>Method = SigningMethodHMAC ''HS256'', Header_alg = ''HS256'', Claims = demoForeignClaims,
      Valid = True\<rparr>"
  have ne: "''eyJhbGciOiJIUzI1NiJ9.e30.c2ln'' \<noteq> []" "''eyJhbGciOiJIUzM4NCJ9.e30.c2ln'' \<noteq> []"
    "''eyJhbGciOiJSUzI1NiJ9.e30.c2ln'' \<noteq> []"
    by simp_all
  note i = algorithm_checks
    [where cfg = rsConfig and now = demoNow and claims = demoForeignClaims
       and sg = "Sig ''HS256'' (Bytes (JWTSecret rsConfig)) (Some ''HS256'') demoForeignClaims"
       and decode = "\<lambda>s. demoForeignToken" and tokenStr = "''eyJhbGciOiJIUzI1NiJ9.e30.c2ln''"
       and token = accepted and username = "''admin''" and email = "''admin@mygmail.com''"]
  from i [THEN conjunct2, THEN conjunct2, THEN conjunct2, THEN conjunct1]
  have "jwt_Parse demoNow
        (Compact (Some ''HS256'') demoForeignClaims
           (Sig ''HS256'' (Bytes (JWTSecret rsConfig)) (Some ''HS256'') demoForeignClaims))
        (JwtValidation_keyFunc rsConfig) =
      (if Sig ''HS256'' (Bytes (JWTSecret rsConfig)) (Some ''HS256'') demoForeignClaims \<noteq>
          Sig ''HS256'' (Bytes (JWTSecret rsConfig)) (Some ''HS256'') demoForeignClaims
       then Inl (ErrTokenSignatureInvalid ErrSignatureInvalid)
       else case Validate demoNow demoForeignClaims of
              [] \<Rightarrow> Inr \<lparr>Method = SigningMethodHMAC ''HS256'', Header_alg = ''HS256'',
                         Claims = demoForeignClaims, Valid = True\<rparr>
            | e # es \<Rightarrow> Inl (ErrTokenInvalidClaims (e # es)))"
    by blast
  then have pa: "jwt_Parse demoNow ((\<lambda>s. demoForeignToken) ''eyJhbGciOiJIUzI1NiJ9.e30.c2ln'')
        (JwtValidation_keyFunc rsConfig) = Inr accepted"
    by (simp add: v secret demoForeignToken_def accepted_def)
  have ia: "map_of (Claims accepted) ''username'' = Some (JStr ''admin'')"
    "map_of (Claims accepted) ''email'' = Some (JStr ''admin@mygmail.com'')"
    using ident by (simp_all add: accepted_def)
  note handler = i [THEN conjunct2, THEN conjunct2, THEN conjunct2, THEN conjunct2, THEN conjunct1]
  have "JwtValidation rsConfig (\<lambda>s. demoForeignToken) demoNow
       (TokenType rsConfig @ '' '' @ ''eyJhbGciOiJIUzI1NiJ9.e30.c2ln'') =
     Ok (Next (Some \<lparr>meta_UserID =
                       (case GetInt64Claim (Claims accepted) ''userid'' of Inl err \<Rightarrow> 0 | Inr v \<Rightarrow> v),
                     meta_Username = ''admin'', meta_Email = ''admin@mygmail.com'',
                     meta_Roles = GetStringSliceClaim (Claims accepted) ''roles''\<rparr>))"
    by (rule mp [OF handler [THEN conjunct2]]) (intro conjI ne(1) pa ia)
  then have 9: "JwtValidation rsConfig (\<lambda>s. demoForeignToken) demoNow
       ''Bearer eyJhbGciOiJIUzI1NiJ9.e30.c2ln'' =
     Ok (Next (Some \<lparr>meta_UserID = 1, meta_Username = ''admin'', meta_Email = ''admin@mygmail.com'',
                     meta_Roles = [''ROLE_ADMIN'']\<rparr>))"
    using ident by (simp add: bearer accepted_def)
  define unexpected where "unexpected =
     ErrTokenUnverifiable (Errorf ''unexpected signing method: %v'' [ArgS ''HS384''])"
  note j = algorithm_checks
    [where cfg = demoConfig and now = demoNow and alg = "''HS384''"
       and m = "SigningMethodHMAC ''HS384''" and claims = demoForeignClaims and n = 1
       and sg = "Sig ''HS384'' (Bytes (JWTSecret demoConfig)) (Some ''HS384'') demoForeignClaims"
       and decode = "\<lambda>s. demoHS384Token" and tokenStr = "''eyJhbGciOiJIUzM4NCJ9.e30.c2ln''"
       and err = unexpected]
  note parse = j [THEN conjunct2, THEN conjunct2, THEN conjunct2, THEN conjunct1]
  from parse fam(4) g(3) fam(7) key(2) have pj: "jwt_Parse demoNow
        ((\<lambda>s. demoHS384Token) ''eyJhbGciOiJIUzM4NCJ9.e30.c2ln'') (JwtValidation_keyFunc demoConfig) =
      Inl unexpected"
    unfolding demoHS384Token_def unexpected_def by blast
  note rejected = j [THEN conjunct2, THEN conjunct2, THEN conjunct2, THEN conjunct2, THEN conjunct1]
  have "JwtValidation demoConfig (\<lambda>s. demoHS384Token) demoNow
       (TokenType demoConfig @ '' '' @ ''eyJhbGciOiJIUzM4NCJ9.e30.c2ln'') =
     Ok (Abort StatusUnauthorized ''Invalid token'' (DetailErr unexpected))"
    by (rule mp [OF rejected [THEN conjunct1]]) (intro conjI ne(2) pj)
  then have 10: "JwtValidation demoConfig (\<lambda>s. demoHS384Token) demoNow
       ''Bearer eyJhbGciOiJIUzM4NCJ9.e30.c2ln'' =
     Ok (Abort StatusUnauthorized ''Invalid token''
           (DetailErr (ErrTokenUnverifiable (Errorf ''unexpected signing method: %v'' [ArgS ''HS384'']))))"
    by (simp add: bearer unexpected_def)
  note k = algorithm_checks
    [where cfg = noKeyConfig and now = demoNow and alg = "''RS256''"
       and m = "SigningMethodRSA ''RS256''" and claims = demoForeignClaims
       and sg = "Sig ''RS256'' (RSAPrivateKey 1) (Some ''RS256'') demoForeignClaims"
       and decode = "\<lambda>s. rsToken" and tokenStr = "''eyJhbGciOiJSUzI1NiJ9.e30.c2ln''"
       and err = "ErrKeyFile ''public.pem''"]
  note parse' = k [THEN conjunct2, THEN conjunct2, THEN conjunct2, THEN conjunct1]
  from parse' fam(3) g(1) nokey(2) have pk: "jwt_Parse demoNow
        ((\<lambda>s. rsToken) ''eyJhbGciOiJSUzI1NiJ9.e30.c2ln'') (JwtValidation_keyFunc noKeyConfig) =
      Inl (ErrTokenUnverifiable (ErrKeyFile ''public.pem''))"
    unfolding rsToken_def by blast
  note l = algorithm_checks
    [where cfg = noKeyConfig and now = demoNow and decode = "\<lambda>s. rsToken"
       and tokenStr = "''eyJhbGciOiJSUzI1NiJ9.e30.c2ln''"
       and err = "ErrTokenUnverifiable (ErrKeyFile ''public.pem'')"]
  note rejected' = l [THEN conjunct2, THEN conjunct2, THEN conjunct2, THEN conjunct2, THEN conjunct1]
  have "JwtValidation noKeyConfig (\<lambda>s. rsToken) demoNow
       (TokenType noKeyConfig @ '' '' @ ''eyJhbGciOiJSUzI1NiJ9.e30.c2ln'') =
     Ok (Abort StatusUnauthorized ''Invalid token''
           (DetailErr (ErrTokenUnverifiable (ErrKeyFile ''public.pem''))))"
    by (rule mp [OF rejected' [THEN conjunct1]]) (intro conjI ne(3) pk)
  then have 11: "JwtValidation noKeyConfig (\<lambda>s. rsToken) demoNow
       ''Bearer eyJhbGciOiJSUzI1NiJ9.e30.c2ln'' =
     Ok (Abort StatusUnauthorized ''Invalid token''
           (DetailErr (ErrTokenUnverifiable (ErrKeyFile ''public.pem''))))"
    by (simp add: bearer)
  show ?thesis
    using 1 2 3 4 5 6 7 8 9 10 11
    unfolding rsToken_def rsConfig_def noKeyConfig_def
    by (intro conjI) assumption+
qed

text \<open>
  Claim C3 as stated fails twice.  Under the configuration RS256 the middleware
  authenticates a token signed with HS256 and the shared secret; and under HS256
  \<open>ParseJWTToken\<close> verifies a token signed with HS384, since the key function tests
  the family of the method and the library verifies with the header's method.
\<close>

theorem algorithm_mismatch_counterexample:
  "JwtValidation (demoConfig\<lparr>SigningMethod := ''RS256''\<rparr>) (\<lambda>s. demoForeignToken) demoNow
       ''Bearer eyJhbGciOiJIUzI1NiJ9.e30.c2ln'' =
     Ok (Next (Some \<lparr>meta_UserID = 1, meta_Username = ''admin'', meta_Email = ''admin@mygmail.com'',
                     meta_Roles = [''ROLE_ADMIN'']\<rparr>))
   \<and> ParseJWTToken demoConfig demoNow demoHS384Token =
     Inr \<lparr>Method = SigningMethodHMAC ''HS384'', Header_alg = ''HS384'', Claims = demoForeignClaims,
          Valid = True\<rparr>"
  by (simp add: JwtValidation_def JwtValidation_keyFunc_def GetInt64Claim_def GetStringSliceClaim_def
      demoForeignToken_def demoHS384Token_def demoForeignClaims_def demoNow_def service_eval demo_data)

subsection \<open>Issuer and audience\<close>

text \<open>
  Claim C2, as amended.  The configured issuer and audience are written into every
  token \<open>GenerateJWTToken\<close> issues, and are not read when a token is verified:
  \<open>ParseJWTToken\<close> and \<open>JwtValidation\<close> give the same result whatever the two
  settings are, and a token signed with the configured secret whose claims the
  validator accepts is verified with whatever \<open>iss\<close> and \<open>aud\<close> it carries.
\<close>

theorem issuer_audience_not_compared:
  "ParseJWTToken (cfg\<lparr>JWTIssuer := issuer, JWTAudience := audience\<rparr>) now tokenStr =
     ParseJWTToken cfg now tokenStr
   \<and> JwtValidation (cfg\<lparr>JWTIssuer := issuer, JWTAudience := audience\<rparr>) decode now authHeader =
     JwtValidation cfg decode now authHeader
   \<and> (SigningMethod cfg = ''HS256'' \<and> Validate now claims = [] \<longrightarrow>
        ParseJWTToken cfg now
          (Compact (Some ''HS256'') claims (Sig ''HS256'' (Bytes (JWTSecret cfg)) (Some ''HS256'') claims)) =
        Inr \<lparr>Method = SigningMethodHMAC ''HS256'', Header_alg = ''HS256'', Claims = claims,
             Valid = True\<rparr>)
   \<and> (GenerateJWTToken cfg t user = Inr (Compact hdr issued sg) \<longrightarrow>
        map_of issued ''iss'' = Some (JStr (JWTIssuer cfg)) \<and>
        map_of issued ''aud'' = Some (JStr (JWTAudience cfg)))"
proof (intro conjI impI)
  show "ParseJWTToken (cfg\<lparr>JWTIssuer := issuer, JWTAudience := audience\<rparr>) now tokenStr =
     ParseJWTToken cfg now tokenStr"
    by (simp add: ParseJWTToken_def ParseJWTTokenWithHS256_def ParseJWTTokenWithRS256_def
        cong: if_cong)
next
  have "JwtValidation_keyFunc (cfg\<lparr>JWTIssuer := issuer, JWTAudience := audience\<rparr>) =
      JwtValidation_keyFunc cfg"
    by (rule ext) (simp add: JwtValidation_keyFunc_def)
  then show "JwtValidation (cfg\<lparr>JWTIssuer := issuer, JWTAudience := audience\<rparr>) decode now authHeader =
     JwtValidation cfg decode now authHeader"
    by (simp add: JwtValidation_def Let_def cong: if_cong)
next
  assume "SigningMethod cfg = ''HS256'' \<and> Validate now claims = []"
  then show "ParseJWTToken cfg now
          (Compact (Some ''HS256'') claims (Sig ''HS256'' (Bytes (JWTSecret cfg)) (Some ''HS256'') claims)) =
        Inr \<lparr>Method = SigningMethodHMAC ''HS256'', Header_alg = ''HS256'', Claims = claims,
             Valid = True\<rparr>"
    using ParseJWTTokenWithHS256_accepts [of "''HS256''" now claims cfg]
    by (simp add: ParseJWTToken_def SigningMethodHS256_def)
next
  assume g: "GenerateJWTToken cfg t user = Inr (Compact hdr issued sg)"
  then show "map_of issued ''iss'' = Some (JStr (JWTIssuer cfg))"
    by (auto simp: GenerateJWTToken_def GenerateJWTTokenWithHS256_def GenerateJWTTokenWithRS256_def
        SignedString_def UnmarshalClaims_def SigningMethodHS256_def SigningMethodRS256_def Let_def
        split: if_splits sum.splits)
  from g show "map_of issued ''aud'' = Some (JStr (JWTAudience cfg))"
    by (auto simp: GenerateJWTToken_def GenerateJWTTokenWithHS256_def GenerateJWTTokenWithRS256_def
        SignedString_def UnmarshalClaims_def SigningMethodHS256_def SigningMethodRS256_def Let_def
        split: if_splits sum.splits)
qed

theorem issuer_audience_not_compared_witness:
  "ParseJWTToken demoConfig demoNow demoForeignToken =
     Inr \<lparr>Method = SigningMethodHMAC ''HS256'', Header_alg = ''HS256'', Claims = demoForeignClaims,
          Valid = True\<rparr>
   \<and> (\<exists>hdr issued sg. GenerateJWTToken demoConfig demoNow demoAdmin = Inr (Compact hdr issued sg) \<and>
        map_of issued ''iss'' = Some (JStr ''your_jwt_issuer'') \<and>
        map_of issued ''aud'' = Some (JStr ''your_jwt_audience''))"
proof -
  have h1: "SigningMethod demoConfig = ''HS256'' \<and> Validate demoNow demoForeignClaims = []"
    by (simp add: demoConfig_def demoForeignClaims_def demoNow_def Validate_def verifyExpiresAt_def
        verifyNotBefore_def parseNumericDate_def Time_Before_def time_Unix_def int64_of_float64_def)
  obtain hdr issued sg where
    h2: "GenerateJWTToken demoConfig demoNow demoAdmin = Inr (Compact hdr issued sg)"
  proof -
    have "\<exists>hdr issued sg. GenerateJWTToken demoConfig demoNow demoAdmin = Inr (Compact hdr issued sg)"
      by (simp add: service_eval demo_data demoNow_def)
    then show ?thesis using that by blast
  qed
  note inst = issuer_audience_not_compared
    [where cfg = demoConfig and now = demoNow and claims = demoForeignClaims
       and t = demoNow and user = demoAdmin and hdr = hdr and issued = issued and sg = sg]
  from inst h1 have a: "ParseJWTToken demoConfig demoNow demoForeignToken =
     Inr \<lparr>Method = SigningMethodHMAC ''HS256'', Header_alg = ''HS256'', Claims = demoForeignClaims,
          Valid = True\<rparr>"
    unfolding demoForeignToken_def by blast
  from inst h2 have "map_of issued ''iss'' = Some (JStr (JWTIssuer demoConfig)) \<and>
        map_of issued ''aud'' = Some (JStr (JWTAudience demoConfig))"
    by blast
  then have b: "map_of issued ''iss'' = Some (JStr ''your_jwt_issuer'') \<and>
        map_of issued ''aud'' = Some (JStr ''your_jwt_audience'')"
    by (simp add: demoConfig_def)
  from a h2 b show ?thesis by blast
qed

text \<open>
  Claim C2 as stated fails: a token naming another issuer and another audience, signed
  with the secret, passes \<open>ParseJWTToken\<close> and is authenticated by the middleware.
\<close>

theorem issuer_audience_counterexample:
  "map_of demoForeignClaims ''iss'' = Some (JStr ''another_issuer'') \<and>
   map_of demoForeignClaims ''aud'' = Some (JStr ''another_audience'') \<and>
   JWTIssuer demoConfig = ''your_jwt_issuer'' \<and> JWTAudience demoConfig = ''your_jwt_audience'' \<and>
   ParseJWTToken demoConfig demoNow demoForeignToken =
     Inr \<lparr>Method = SigningMethodHMAC ''HS256'', Header_alg = ''HS256'', Claims = demoForeignClaims,
          Valid = True\<rparr> \<and>
   JwtValidation demoConfig (\<lambda>s. demoForeignToken) demoNow ''Bearer eyJhbGciOiJIUzI1NiJ9.e30.c2ln'' =
     Ok (Next (Some \<lparr>meta_UserID = 1, meta_Username = ''admin'', meta_Email = ''admin@mygmail.com'',
                     meta_Roles = [''ROLE_ADMIN'']\<rparr>))"
  by (simp add: JwtValidation_def JwtValidation_keyFunc_def GetInt64Claim_def GetStringSliceClaim_def
      demoForeignToken_def demoForeignClaims_def demoNow_def service_eval demo_data)

end
